(* ===== verification/Prelude.thy ===== *)
theory Prelude
  imports Complex_Main "HOL-Library.Multiset" "HOL-Library.AList"
begin

text \<open>
  Shared vocabulary of the smart-delivery development (src/main.py): the Python
  exceptions the program can meet, the result type that carries them, the
  coordinate type of the route planner, the lines the program prints, and the
  generic list lemmas the component theories share.
\<close>

named_theorems py_builtin_simps
  "equations that turn the modelled Python builtins into HOL library terms"

section \<open>Python exceptions and results\<close>

text \<open>
  The builtins used by main.py raise \<open>ValueError\<close> (\<open>min\<close> of an empty
  sequence, \<open>list.remove\<close> of an absent element), \<open>KeyError\<close>
  (\<open>d[k]\<close> of an absent key) and \<open>OverflowError\<close> (float \<open>**\<close> whose
  finite operands give a result out of range). A raised exception is the \<open>Inl\<close> branch of
  \<open>'a py_result\<close>; the string is the message Python attaches.
\<close>

datatype py_error = ValueError string | KeyError string | OverflowError string

type_synonym 'a py_result = "py_error + 'a"

section \<open>Locations and printed output\<close>

text \<open>
  Every \<open>print\<close> of main.py is one constructor of \<open>out_line\<close>, carrying the
  values the f-string interpolates; \<open>'l\<close> is the type of a location (a pair of
  Python floats in PyFloat). Render gives each constructor its text.
\<close>

datatype 'l out_line =
    Simulating_Header
  | Error_Optimizing py_error
  | Optimal_Route_Header
  | Delivery_To 'l
  | Available int string
  | Insufficient string
  | Status_Header
  | Status_Line string int

section \<open>Generic list lemmas\<close>

lemma find_first_Some:
  assumes "r \<in> set ys" and "P r" and "\<forall>z\<in>set (takeWhile (\<lambda>y. y \<noteq> r) ys). \<not> P z"
  shows "find P ys = Some r"
  using assms by (induction ys) (auto split: if_splits)

lemma add_mset_remove1 [simp]:
  "x \<in> set xs \<Longrightarrow> add_mset x (mset (remove1 x xs)) = mset xs"
  by (induction xs) auto

lemma length_remove1_less:
  "x \<in> set xs \<Longrightarrow> length (remove1 x xs) < length xs"
  by (induction xs) auto

lemma list_all_alist_update [intro]:
  "list_all P al \<Longrightarrow> P (k, v) \<Longrightarrow> list_all P (AList.update k v al)"
  by (induction al) auto

end
