(* ===== verification/PyBuiltins.thy ===== *)
theory PyBuiltins
  imports Prelude
begin

text \<open>
  The Python builtins main.py relies on, modelled after CPython: \<open>min\<close> with a
  \<open>key\<close> function, \<open>list.remove\<close>, and the dictionary operations \<open>in\<close>,
  \<open>d[k]\<close>, \<open>d[k] = v\<close> and \<open>d.get(k, default)\<close> on an insertion-ordered
  dictionary. Each comes with the lemma that relates it to a plain HOL
  reference: the first element of least key, \<open>remove1\<close>, and \<open>map_of\<close> /
  \<open>AList.update\<close>. \<open>min\<close> comes twice: \<open>py_min_key\<close> for keys that never
  raise and are compared by a linear order, and the general \<open>py_min_by\<close> (with
  \<open>py_min_idx\<close>, the position it selects) for a key that may raise and a strict
  order given as a parameter, as float keys need.
\<close>

section \<open>\<open>min(iterable, key=...)\<close>\<close>

text \<open>
  CPython's \<open>min_max\<close> keeps the first item and replaces it by a later item only
  when the later key is strictly smaller (\<open>Py_LT\<close>); an empty iterable raises
  \<open>ValueError\<close>. On ties the earliest item therefore wins.
\<close>

fun min_key_from :: "('a \<Rightarrow> 'k::linorder) \<Rightarrow> 'a \<Rightarrow> 'a list \<Rightarrow> 'a" where
  "min_key_from key m [] = m"
| "min_key_from key m (x # xs) = min_key_from key (if key x < key m then x else m) xs"


text \<open>
  The general form of the same builtin: the key function may raise (the exception
  leaves \<open>min\<close> at once) and the keys are compared by their own \<open><\<close>, which need
  not be a total order (floats with NaN). Each item's key is computed once, in
  list order, and the running minimum is replaced only when the new key is
  strictly less.
\<close>

fun min_by_from ::
  "('a \<Rightarrow> 'k py_result) \<Rightarrow> ('k \<Rightarrow> 'k \<Rightarrow> bool) \<Rightarrow> 'a \<Rightarrow> 'k \<Rightarrow> 'a list \<Rightarrow> 'a py_result" where
  "min_by_from key lt m km [] = Inr m"
| "min_by_from key lt m km (x # xs) =
     (case key x of
        Inl e \<Rightarrow> Inl e
      | Inr kx \<Rightarrow> (if lt kx km then min_by_from key lt x kx xs else min_by_from key lt m km xs))"

fun py_min_by :: "('a \<Rightarrow> 'k py_result) \<Rightarrow> ('k \<Rightarrow> 'k \<Rightarrow> bool) \<Rightarrow> 'a list \<Rightarrow> 'a py_result" where
  "py_min_by key lt [] = Inl (ValueError ''min() arg is an empty sequence'')"
| "py_min_by key lt (x # xs) =
     (case key x of Inl e \<Rightarrow> Inl e | Inr kx \<Rightarrow> min_by_from key lt x kx xs)"

text \<open>
  CPython's \<open>min\<close> returns the object it holds, i.e. the item at one position of
  the list; \<open>py_min_idx\<close> is the same loop returning that position.
\<close>

fun min_idx_from ::
  "('a \<Rightarrow> 'k py_result) \<Rightarrow> ('k \<Rightarrow> 'k \<Rightarrow> bool) \<Rightarrow> nat \<Rightarrow> 'k \<Rightarrow> nat \<Rightarrow> 'a list \<Rightarrow> nat py_result" where
  "min_idx_from key lt b kb i [] = Inr b"
| "min_idx_from key lt b kb i (x # xs) =
     (case key x of
        Inl e \<Rightarrow> Inl e
      | Inr kx \<Rightarrow>
          (if lt kx kb then min_idx_from key lt i kx (Suc i) xs
           else min_idx_from key lt b kb (Suc i) xs))"

fun py_min_idx :: "('a \<Rightarrow> 'k py_result) \<Rightarrow> ('k \<Rightarrow> 'k \<Rightarrow> bool) \<Rightarrow> 'a list \<Rightarrow> nat py_result" where
  "py_min_idx key lt [] = Inl (ValueError ''min() arg is an empty sequence'')"
| "py_min_idx key lt (x # xs) =
     (case key x of Inl e \<Rightarrow> Inl e | Inr kx \<Rightarrow> min_idx_from key lt 0 kx 1 xs)"

text \<open>The reference: the first element of the list whose key is least.\<close>

definition first_min_key :: "('a \<Rightarrow> 'k::linorder) \<Rightarrow> 'a list \<Rightarrow> 'a option" where
  "first_min_key key xs = find (\<lambda>y. list_all (\<lambda>z. key y \<le> key z) xs) xs"

section \<open>\<open>list.remove(x)\<close>\<close>

text \<open>
  \<open>list.remove\<close> deletes the first element equal to \<open>x\<close> and raises
  \<open>ValueError\<close> when there is none.
\<close>

fun py_list_remove :: "'a \<Rightarrow> 'a list \<Rightarrow> 'a list py_result" where
  "py_list_remove x [] = Inl (ValueError ''list.remove(x): x not in list'')"
| "py_list_remove x (y # ys) =
     (if y = x then Inr ys else map_sum id (Cons y) (py_list_remove x ys))"

section \<open>Dictionaries\<close>

text \<open>
  A Python dict keeps its keys in insertion order and overwriting a key keeps its
  position: an association list with distinct keys, updated by \<open>AList.update\<close>
  (in place when present, appended otherwise). The inventory's keys are strings,
  which \<open>KeyError\<close> reports.
\<close>

definition py_dict_contains :: "'k \<Rightarrow> ('k \<times> 'v) list \<Rightarrow> bool" where
  "py_dict_contains k d \<longleftrightarrow> k \<in> set (map fst d)"

definition py_dict_getitem :: "(string \<times> 'v) list \<Rightarrow> string \<Rightarrow> 'v py_result" where
  "py_dict_getitem d k = (case map_of d k of None \<Rightarrow> Inl (KeyError k) | Some v \<Rightarrow> Inr v)"

definition py_dict_setitem :: "('k \<times> 'v) list \<Rightarrow> 'k \<Rightarrow> 'v \<Rightarrow> ('k \<times> 'v) list" where
  "py_dict_setitem d k v = AList.update k v d"

definition py_dict_get :: "('k \<times> 'v) list \<Rightarrow> 'k \<Rightarrow> 'v \<Rightarrow> 'v" where
  "py_dict_get d k dflt = (case map_of d k of None \<Rightarrow> dflt | Some v \<Rightarrow> v)"

section \<open>Lemmas on \<open>min\<close>\<close>

lemma min_key_from_in: "min_key_from key m xs \<in> set (m # xs)"
  by (induction xs arbitrary: m) auto

lemma min_key_from_le:
  "z \<in> set (m # xs) \<Longrightarrow> key (min_key_from key m xs) \<le> key z"
proof (induction xs arbitrary: m z)
  case Nil
  then show ?case by simp
next
  case (Cons x xs)
  let ?m' = "if key x < key m then x else m"
  have r: "key (min_key_from key m (x # xs)) \<le> key ?m'"
    using Cons.IH [of ?m' ?m'] by simp
  show ?case
  proof (cases "z \<in> set xs")
    case True
    then show ?thesis using Cons.IH [of z ?m'] by simp
  next
    case False
    with Cons.prems have "z = m \<or> z = x" by simp
    with r show ?thesis by (auto split: if_splits)
  qed
qed

text \<open>Every element before the first occurrence of the result has a larger key.\<close>

lemma min_key_from_first:
  "z \<in> set (takeWhile (\<lambda>y. y \<noteq> min_key_from key m xs) (m # xs))
   \<Longrightarrow> key (min_key_from key m xs) < key z"
proof (induction xs arbitrary: m z)
  case Nil
  then show ?case by simp
next
  case (Cons x xs)
  let ?r = "min_key_from key m (x # xs)"
  show ?case
  proof (cases "key x < key m")
    case True
    have r: "?r = min_key_from key x xs" using True by simp
    have "key ?r \<le> key x" using min_key_from_le [of x x xs key] r by simp
    with True have "key ?r < key m" by simp
    with Cons.prems Cons.IH [of z x] r show ?thesis
      by (auto split: if_splits)
  next
    case False
    have r: "?r = min_key_from key m xs" using False by simp
    show ?thesis
    proof (cases "m = ?r")
      case True
      with Cons.prems show ?thesis by simp
    next
      case False
      with Cons.IH [of m m] r have lt: "key ?r < key m" by simp
      with \<open>\<not> key x < key m\<close> have "key ?r < key x" by simp
      with Cons.prems Cons.IH [of z m] r False lt show ?thesis
        by (auto split: if_splits)
    qed
  qed
qed

lemma first_min_key_exists:
  "xs \<noteq> [] \<Longrightarrow> first_min_key key xs = Some (min_key_from key (hd xs) (tl xs))"
proof (cases xs)
  case (Cons m ys)
  let ?r = "min_key_from key m ys"
  have "find (\<lambda>y. list_all (\<lambda>z. key y \<le> key z) (m # ys)) (m # ys) = Some ?r"
  proof (rule find_first_Some)
    show "?r \<in> set (m # ys)" by (rule min_key_from_in)
    show "list_all (\<lambda>z. key ?r \<le> key z) (m # ys)"
      by (simp add: list_all_iff min_key_from_le del: list.set)
    show "\<forall>z\<in>set (takeWhile (\<lambda>y. y \<noteq> ?r) (m # ys)). \<not> list_all (\<lambda>w. key z \<le> key w) (m # ys)"
      using min_key_from_first [of _ key m ys] min_key_from_in [of key m ys]
      by (fastforce simp: list_all_iff)
  qed
  then show "first_min_key key xs = Some (min_key_from key (hd xs) (tl xs))"
    using Cons by (simp add: first_min_key_def)
qed simp

lemma first_min_key_Nil [simp]: "first_min_key key [] = None"
  by (simp add: first_min_key_def)

lemma first_min_key_None [simp]: "first_min_key key xs = None \<longleftrightarrow> xs = []"
  by (cases xs) (simp_all add: first_min_key_exists)


section \<open>Lemmas on the general \<open>min\<close>\<close>

lemma min_by_from_Inr_in:
  "min_by_from key lt m km xs = Inr r \<Longrightarrow> r \<in> set (m # xs)"
  by (induction xs arbitrary: m km) (fastforce split: sum.splits if_splits)+

lemma min_by_from_Inl:
  "min_by_from key lt m km xs = Inl e \<Longrightarrow> \<exists>x\<in>set xs. key x = Inl e"
  by (induction xs arbitrary: m km) (fastforce split: sum.splits if_splits)+

lemma min_by_from_total:
  "\<forall>x\<in>set xs. \<exists>k. key x = Inr k \<Longrightarrow> \<exists>r. min_by_from key lt m km xs = Inr r"
  by (induction xs arbitrary: m km) (auto split: sum.splits)

lemma py_min_by_Inr_in: "py_min_by key lt xs = Inr r \<Longrightarrow> r \<in> set xs"
  by (cases xs) (auto split: sum.splits dest: min_by_from_Inr_in)

lemma py_min_by_Inl:
  "py_min_by key lt xs = Inl e \<Longrightarrow>
     (xs = [] \<and> e = ValueError ''min() arg is an empty sequence'') \<or> (\<exists>x\<in>set xs. key x = Inl e)"
  by (cases xs) (auto split: sum.splits dest: min_by_from_Inl)

lemma py_min_by_total:
  "xs \<noteq> [] \<Longrightarrow> \<forall>x\<in>set xs. \<exists>k. key x = Inr k \<Longrightarrow> \<exists>r. py_min_by key lt xs = Inr r"
  by (cases xs) (auto split: sum.splits intro: min_by_from_total)

text \<open>
  Keys that never raise and are compared through an order-embedding \<open>g\<close>: the
  general \<open>min\<close> on an image list is the image of \<open>py_min_key\<close>.
\<close>

text \<open>
  Under a strict partial order, nothing in the list has a key strictly below the
  key of the element \<open>min\<close> returns, and every key was computed without raising.
\<close>

lemma min_by_from_least:
  assumes irr: "\<forall>k. \<not> lt k k" and tr: "\<forall>a b c. lt a b \<longrightarrow> lt b c \<longrightarrow> lt a c"
  shows "min_by_from key lt m km xs = Inr r \<Longrightarrow> key m = Inr km \<Longrightarrow>
    \<exists>kr. key r = Inr kr \<and> (kr = km \<or> lt kr km) \<and>
      (\<forall>z\<in>set (m # xs). \<exists>kz. key z = Inr kz \<and> \<not> lt kz kr)"
proof (induction xs arbitrary: m km)
  case Nil
  then show ?case using irr by auto
next
  case (Cons x xs)
  from Cons.prems(1) obtain kx where kx: "key x = Inr kx"
    by (cases "key x") auto
  show ?case
  proof (cases "lt kx km")
    case True
    with Cons.prems(1) kx have "min_by_from key lt x kx xs = Inr r" by simp
    from Cons.IH [OF this kx] obtain kr where kr: "key r = Inr kr" and ch: "kr = kx \<or> lt kr kx"
      and all: "\<forall>z\<in>set (x # xs). \<exists>kz. key z = Inr kz \<and> \<not> lt kz kr" by blast
    have lt: "lt kr km" using ch True tr by blast
    then have "\<not> lt km kr" using irr tr by blast
    with kr lt all Cons.prems(2) show ?thesis by auto
  next
    case False
    with Cons.prems(1) kx have "min_by_from key lt m km xs = Inr r" by simp
    from Cons.IH [OF this Cons.prems(2)] obtain kr where kr: "key r = Inr kr"
      and ch: "kr = km \<or> lt kr km"
      and all: "\<forall>z\<in>set (m # xs). \<exists>kz. key z = Inr kz \<and> \<not> lt kz kr" by blast
    have "\<not> lt kx kr" using ch False tr by blast
    with kr ch all kx show ?thesis by auto
  qed
qed

lemma py_min_by_least:
  assumes "\<forall>k. \<not> lt k k" and "\<forall>a b c. lt a b \<longrightarrow> lt b c \<longrightarrow> lt a c"
    and "py_min_by key lt xs = Inr r"
  shows "\<exists>kr. key r = Inr kr \<and> (\<forall>z\<in>set xs. \<exists>kz. key z = Inr kz \<and> \<not> lt kz kr)"
proof (cases xs)
  case Nil
  with assms(3) show ?thesis by simp
next
  case (Cons x ys)
  with assms(3) obtain kx where kx: "key x = Inr kx" and m: "min_by_from key lt x kx ys = Inr r"
    by (cases "key x") auto
  show ?thesis using min_by_from_least [OF assms(1,2) m kx] Cons by blast
qed

text \<open>An element whose key nothing is below is never replaced.\<close>

lemma min_by_from_bottom:
  "\<forall>k. \<not> lt k km \<Longrightarrow> min_by_from key lt m km xs = Inr r \<Longrightarrow> r = m"
  by (induction xs) (auto split: sum.splits if_splits)

section \<open>The position \<open>min\<close> returns\<close>

lemma min_by_from_idx:
  "b < length pre \<Longrightarrow>
   min_by_from key lt (pre ! b) kb zs =
     map_sum id (nth (pre @ zs)) (min_idx_from key lt b kb (length pre) zs)"
proof (induction zs arbitrary: pre b kb)
  case Nil
  then show ?case by (simp add: nth_append)
next
  case (Cons x zs)
  have ix: "(pre @ [x]) ! length pre = x" by simp
  have b: "(pre @ [x]) ! b = pre ! b" using Cons.prems by (simp add: nth_append)
  show ?case
    using Cons.IH [of "length pre" "pre @ [x]"] Cons.IH [of b "pre @ [x]"] Cons.prems ix b
    by (auto split: sum.splits)
qed

lemma py_min_by_idx: "py_min_by key lt xs = map_sum id (nth xs) (py_min_idx key lt xs)"
  using min_by_from_idx [of 0 "[_]"] by (cases xs) (auto split: sum.splits)

text \<open>
  The invariant of the index loop, for a strict partial order on the keys: no key
  seen so far is below the running minimum, and no position before the running
  minimum holds the same value.
\<close>

lemma min_idx_from_first:
  assumes irrefl: "\<forall>k. \<not> lt k k" and trans: "\<forall>a b c. lt a b \<longrightarrow> lt b c \<longrightarrow> lt a c"
  shows "b < length pre \<Longrightarrow> key (pre ! b) = Inr kb \<Longrightarrow>
     (\<forall>j<length pre. \<forall>k. key (pre ! j) = Inr k \<longrightarrow> \<not> lt k kb) \<Longrightarrow>
     (\<forall>j<b. pre ! j \<noteq> pre ! b) \<Longrightarrow>
     min_idx_from key lt b kb (length pre) zs = Inr w \<Longrightarrow>
     w < length (pre @ zs) \<and> (\<forall>j<w. (pre @ zs) ! j \<noteq> (pre @ zs) ! w)"
proof (induction zs arbitrary: pre b kb)
  case Nil
  then show ?case by simp
next
  case (Cons x zs)
  let ?pre = "pre @ [x]"
  from Cons.prems(5) obtain kx where kx: "key x = Inr kx"
    by (cases "key x") auto
  show ?case
  proof (cases "lt kx kb")
    case True
    have "\<forall>j<length ?pre. \<forall>k. key (?pre ! j) = Inr k \<longrightarrow> \<not> lt k kx"
      using Cons.prems(3) True irrefl trans kx by (auto simp: nth_append less_Suc_eq)
    moreover have "\<forall>j<length pre. ?pre ! j \<noteq> ?pre ! length pre"
      using Cons.prems(3) True kx by (auto simp: nth_append)
    ultimately show ?thesis
      using Cons.IH [of "length pre" "?pre" kx] Cons.prems(5) True kx by auto
  next
    case False
    have "\<forall>j<length ?pre. \<forall>k. key (?pre ! j) = Inr k \<longrightarrow> \<not> lt k kb"
      using Cons.prems(3) False kx by (auto simp: nth_append less_Suc_eq)
    moreover have "?pre ! b = pre ! b" "\<forall>j<b. ?pre ! j = pre ! j"
      using Cons.prems(1) by (auto simp: nth_append)
    ultimately show ?thesis
      using Cons.IH [of b "?pre" kb] Cons.prems False kx by (auto simp: nth_append)
  qed
qed

lemma py_min_idx_first:
  assumes "\<forall>k. \<not> lt k k" and "\<forall>a b c. lt a b \<longrightarrow> lt b c \<longrightarrow> lt a c"
    and "py_min_idx key lt xs = Inr i"
  shows "i < length xs \<and> (\<forall>j<i. xs ! j \<noteq> xs ! i)"
proof (cases xs)
  case Nil
  with assms(3) show ?thesis by simp
next
  case (Cons x ys)
  with assms(3) obtain kx where kx: "key x = Inr kx" and m: "min_idx_from key lt 0 kx 1 ys = Inr i"
    by (cases "key x") auto
  have "min_idx_from key lt 0 kx (length [x]) ys = Inr i" using m by simp
  from min_idx_from_first [OF assms(1,2), where b = 0 and pre = "[x]" and kb = kx and zs = ys and w = i]
    this kx assms(1) Cons
  show ?thesis by auto
qed

lemma remove1_first_occurrence:
  "i < length xs \<Longrightarrow> \<forall>j<i. xs ! j \<noteq> xs ! i \<Longrightarrow>
   remove1 (xs ! i) xs = take i xs @ drop (Suc i) xs"
proof (induction xs arbitrary: i)
  case Nil
  then show ?case by simp
next
  case (Cons y ys)
  show ?case
  proof (cases i)
    case 0
    then show ?thesis by simp
  next
    case (Suc i')
    with Cons.prems have "y \<noteq> ys ! i'" by force
    moreover have "remove1 (ys ! i') ys = take i' ys @ drop (Suc i') ys"
      using Cons.prems Suc by (intro Cons.IH) force+
    ultimately show ?thesis using Suc by simp
  qed
qed

section \<open>Lemmas on \<open>list.remove\<close> and dictionaries\<close>

lemma py_list_remove_eq [py_builtin_simps]:
  "py_list_remove x xs =
     (if x \<in> set xs then Inr (remove1 x xs)
      else Inl (ValueError ''list.remove(x): x not in list''))"
  by (induction xs) auto

lemma py_dict_getitem_contains:
  "py_dict_contains k d \<Longrightarrow> \<exists>v. py_dict_getitem d k = Inr v \<and> map_of d k = Some v"
  by (auto simp: py_dict_contains_def py_dict_getitem_def dest: weak_map_of_SomeI)

lemma map_of_py_dict_setitem [py_builtin_simps]:
  "map_of (py_dict_setitem d k v) = (map_of d)(k \<mapsto> v)"
  by (simp add: py_dict_setitem_def update_conv')

section \<open>Properties of \<open>min\<close>\<close>

text \<open>
  \<^bold>\<open>C11.\<close> When the keys are compared by a strict partial order (as IEEE
  \<open><\<close> compares floats, NaN included), the object \<open>min\<close> returns sits at the
  first occurrence of its value, so \<open>list.remove\<close> of that value deletes exactly
  that object: removal by value is removal of the selected position.
\<close>

theorem min_removes_selected:
  assumes "\<forall>k. \<not> lt k k" and "\<forall>a b c. lt a b \<longrightarrow> lt b c \<longrightarrow> lt a c"
    and "py_min_by key lt xs = Inr r"
  shows "\<exists>i. py_min_idx key lt xs = Inr i \<and> i < length xs \<and> xs ! i = r \<and>
           remove1 r xs = take i xs @ drop (Suc i) xs"
proof -
  from assms(3) obtain i where i: "py_min_idx key lt xs = Inr i" and r: "r = xs ! i"
    by (cases "py_min_idx key lt xs") (auto simp: py_min_by_idx)
  from py_min_idx_first [OF assms(1,2) i] have "i < length xs" "\<forall>j<i. xs ! j \<noteq> xs ! i"
    by simp_all
  with i r show ?thesis by (auto intro: remove1_first_occurrence)
qed

end
