(* ===== verification/PyFloat.thy ===== *)
theory PyFloat
  imports PyBuiltins
begin

text \<open>
  Python floats (IEEE-754 doubles) as far as \<open>calculate_distance\<close> (src/main.py
  line 16) uses them: subtraction, \<open>** 2\<close>, addition, \<open>np.sqrt\<close>, and the \<open><\<close>
  by which \<open>min\<close> compares the resulting keys. A float is finite, \<open>+inf\<close>,
  \<open>-inf\<close> or NaN. Finite results are kept exact (rounding to 53 bits is not
  modelled, nor is the sign of zero); a finite result whose magnitude reaches the
  round-to-nearest overflow threshold \<open>2^1024 - 2^970\<close> overflows. On overflow
  \<open>-\<close> and \<open>+\<close> give an infinity, while CPython's \<open>float.__pow__\<close> raises
  \<open>OverflowError\<close> when finite operands overflow (errno \<open>ERANGE\<close>). The case
  analysis on NaN and infinities follows IEEE-754.
\<close>

section \<open>Values and operations\<close>

datatype pyfloat = Fin real | PosInf | NegInf | NaN

type_synonym location_f = "pyfloat \<times> pyfloat"

definition float_overflow_threshold :: real where
  "float_overflow_threshold = 2 ^ 1024 - 2 ^ 970"

text \<open>An exact result, overflowing to an infinity at the threshold.\<close>

definition float_of_real :: "real \<Rightarrow> pyfloat" where
  "float_of_real r =
     (if float_overflow_threshold \<le> r then PosInf
      else if r \<le> - float_overflow_threshold then NegInf
      else Fin r)"

fun float_sub :: "pyfloat \<Rightarrow> pyfloat \<Rightarrow> pyfloat" where
  "float_sub NaN _ = NaN"
| "float_sub _ NaN = NaN"
| "float_sub PosInf PosInf = NaN"
| "float_sub NegInf NegInf = NaN"
| "float_sub PosInf _ = PosInf"
| "float_sub NegInf _ = NegInf"
| "float_sub (Fin a) PosInf = NegInf"
| "float_sub (Fin a) NegInf = PosInf"
| "float_sub (Fin a) (Fin b) = float_of_real (a - b)"

fun float_add :: "pyfloat \<Rightarrow> pyfloat \<Rightarrow> pyfloat" where
  "float_add NaN _ = NaN"
| "float_add _ NaN = NaN"
| "float_add PosInf NegInf = NaN"
| "float_add NegInf PosInf = NaN"
| "float_add PosInf _ = PosInf"
| "float_add NegInf _ = NegInf"
| "float_add (Fin a) PosInf = PosInf"
| "float_add (Fin a) NegInf = NegInf"
| "float_add (Fin a) (Fin b) = float_of_real (a + b)"

text \<open>
  \<open>x ** 2\<close>: NaN stays NaN, both infinities square to \<open>+inf\<close>, and a finite
  square that overflows raises.
\<close>

fun float_pow2 :: "pyfloat \<Rightarrow> pyfloat py_result" where
  "float_pow2 NaN = Inr NaN"
| "float_pow2 PosInf = Inr PosInf"
| "float_pow2 NegInf = Inr PosInf"
| "float_pow2 (Fin a) =
     (if float_overflow_threshold \<le> a ^ 2
      then Inl (OverflowError ''(34, 'Numerical result out of range')'')
      else Inr (Fin (a ^ 2)))"

text \<open>\<open>np.sqrt\<close>: a negative or NaN argument gives NaN (with a warning, no exception).\<close>

fun np_sqrt :: "pyfloat \<Rightarrow> pyfloat" where
  "np_sqrt NaN = NaN"
| "np_sqrt PosInf = PosInf"
| "np_sqrt NegInf = NaN"
| "np_sqrt (Fin a) = (if a < 0 then NaN else Fin (sqrt a))"

text \<open>IEEE \<open><\<close>: false whenever NaN is involved.\<close>

fun float_lt :: "pyfloat \<Rightarrow> pyfloat \<Rightarrow> bool" where
  "float_lt NaN _ = False"
| "float_lt _ NaN = False"
| "float_lt _ NegInf = False"
| "float_lt NegInf _ = True"
| "float_lt PosInf _ = False"
| "float_lt _ PosInf = True"
| "float_lt (Fin a) (Fin b) = (a < b)"

section \<open>Order facts\<close>

lemma float_lt_irrefl [simp]: "\<not> float_lt x x"
  by (cases x) simp_all

lemma float_lt_trans: "float_lt x y \<Longrightarrow> float_lt y z \<Longrightarrow> float_lt x z"
  by (cases x; cases y; cases z) simp_all

lemma float_lt_Fin [simp]: "float_lt (Fin a) (Fin b) \<longleftrightarrow> a < b"
  by simp

lemma float_of_real_Fin:
  "\<bar>r\<bar> < float_overflow_threshold \<Longrightarrow> float_of_real r = Fin r"
  by (auto simp: float_of_real_def)

end
