(* ===== verification/FloatPlanner.thy ===== *)
theory FloatPlanner
  imports PyFloat
begin

text \<open>
  The \<open>RoutePlanner\<close> class of src/main.py (lines 10--35) over the float model of
  PyFloat: coordinates are Python floats (finite, infinite or NaN),
  \<open>calculate_distance\<close> may raise \<open>OverflowError\<close> from \<open>** 2\<close>, \<open>min\<close>
  compares keys by IEEE \<open><\<close>, and \<open>find_optimal_route\<close> catches the exception,
  prints it and returns \<open>[]\<close>. \<open>list.remove\<close> is modelled by value:
  PyBuiltins proves that the position \<open>min\<close> returns holds the first occurrence
  of its value whenever the key order is a strict partial order (IEEE \<open><\<close> is
  one), so deleting the first equal value deletes the very object \<open>min\<close>
  returned. The specification is \<open>greedy_tour\<close>: every step goes to a remaining
  location whose distance no other remaining location's distance is below, by
  the comparison the program uses. Results: every successful run is such a tour;
  every failure is an \<open>OverflowError\<close>; with coordinates of magnitude at most
  \<open>2^510\<close> (or non-finite) no run fails; ties go to the location listed first; a
  location with a NaN coordinate wins every comparison it is the incumbent of.
\<close>

section \<open>The model of the code over floats\<close>

record route_planner_f =
  locations_f :: "location_f list"

text \<open>
  \<open>np.sqrt((a - b)**2 + (c - d)**2)\<close>, evaluated left to right: the first
  square, then the second, then their sum and its root.
\<close>

definition calculate_distance_f :: "location_f \<Rightarrow> location_f \<Rightarrow> pyfloat py_result" where
  "calculate_distance_f loc1 loc2 =
     (case float_pow2 (float_sub (fst loc1) (fst loc2)) of
        Inl e \<Rightarrow> Inl e
      | Inr d1 \<Rightarrow>
          (case float_pow2 (float_sub (snd loc1) (snd loc2)) of
             Inl e \<Rightarrow> Inl e
           | Inr d2 \<Rightarrow> Inr (np_sqrt (float_add d1 d2))))"

function find_route_loop_f ::
  "location_f \<Rightarrow> location_f list \<Rightarrow> location_f list \<Rightarrow> location_f list py_result" where
  "find_route_loop_f current_location remaining_locations route =
     (if remaining_locations = [] then Inr route
      else
        (case py_min_by (calculate_distance_f current_location) float_lt remaining_locations of
           Inl e \<Rightarrow> Inl e
         | Inr next_location \<Rightarrow>
             (case py_list_remove next_location remaining_locations of
                Inl e \<Rightarrow> Inl e
              | Inr remaining' \<Rightarrow>
                  find_route_loop_f next_location remaining' (route @ [next_location]))))"
  by pat_completeness auto
termination
  by (relation "measure (\<lambda>(cur, rem, route). length rem)")
     (auto simp: py_builtin_simps length_remove1_less split: if_splits)

declare find_route_loop_f.simps [simp del]

definition find_optimal_route_f ::
  "route_planner_f \<Rightarrow> location_f \<Rightarrow> location_f out_line list \<times> location_f list" where
  "find_optimal_route_f self start_location =
     (case find_route_loop_f start_location (locations_f self) [start_location] of
        Inl e \<Rightarrow> ([Error_Optimizing e], [])
      | Inr route \<Rightarrow> ([], route))"

section \<open>Coordinates and their bounds\<close>

text \<open>A coordinate whose differences square without overflow: non-finite, or at most \<open>2^510\<close>.\<close>

definition coord_bound :: real where
  "coord_bound = 2 ^ 510"

definition coord_ok :: "pyfloat \<Rightarrow> bool" where
  "coord_ok x = (case x of Fin a \<Rightarrow> \<bar>a\<bar> \<le> coord_bound | _ \<Rightarrow> True)"

definition loc_ok :: "location_f \<Rightarrow> bool" where
  "loc_ok l \<longleftrightarrow> coord_ok (fst l) \<and> coord_ok (snd l)"

section \<open>The specification: greedy tours\<close>

text \<open>
  \<open>greedy_tour distf lt cur rem tour\<close>: \<open>tour\<close> visits the multiset \<open>rem\<close>
  from \<open>cur\<close>; each step goes to some remaining \<open>y\<close> such that every remaining
  location's distance from the current one is computed without raising and none
  is below (by \<open>lt\<close>) the distance to \<open>y\<close>. Any tie-break is allowed.
\<close>

inductive greedy_tour ::
  "('a \<Rightarrow> 'a \<Rightarrow> 'k py_result) \<Rightarrow> ('k \<Rightarrow> 'k \<Rightarrow> bool) \<Rightarrow> 'a \<Rightarrow> 'a list \<Rightarrow> 'a list \<Rightarrow> bool"
  for distf lt where
  gt_done: "greedy_tour distf lt cur [] []"
| gt_next: "y \<in> set rem \<Longrightarrow> distf cur y = Inr ky \<Longrightarrow>
    \<forall>z\<in>set rem. \<exists>kz. distf cur z = Inr kz \<and> \<not> lt kz ky \<Longrightarrow>
    greedy_tour distf lt y (remove1 y rem) tour \<Longrightarrow> greedy_tour distf lt cur rem (y # tour)"

section \<open>Distances\<close>

lemma coord_bound_facts:
  "0 \<le> coord_bound" "2 * coord_bound < float_overflow_threshold"
  "(2 * coord_bound) ^ 2 + (2 * coord_bound) ^ 2 < float_overflow_threshold"
  by (simp_all add: coord_bound_def float_overflow_threshold_def)

lemma sub_bounded:
  assumes "\<bar>a\<bar> \<le> coord_bound" "\<bar>b\<bar> \<le> coord_bound"
  shows "\<bar>a - b\<bar> \<le> 2 * coord_bound" and "(a - b) ^ 2 \<le> (2 * coord_bound) ^ 2"
proof -
  show ab: "\<bar>a - b\<bar> \<le> 2 * coord_bound" using assms by simp
  have "(a - b) ^ 2 = \<bar>a - b\<bar> ^ 2" by simp
  also have "\<dots> \<le> (2 * coord_bound) ^ 2"
    using ab by (intro power_mono) simp_all
  finally show "(a - b) ^ 2 \<le> (2 * coord_bound) ^ 2" .
qed

lemma sq_sub_bounded:
  assumes "\<bar>a\<bar> \<le> coord_bound" "\<bar>b\<bar> \<le> coord_bound"
  shows "float_of_real (a - b) = Fin (a - b)" and "\<not> float_overflow_threshold \<le> (a - b) ^ 2"
proof -
  show "float_of_real (a - b) = Fin (a - b)"
    using sub_bounded(1) [OF assms] coord_bound_facts by (simp add: float_of_real_Fin)
  show "\<not> float_overflow_threshold \<le> (a - b) ^ 2"
    using sub_bounded(2) [OF assms] coord_bound_facts(3) zero_le_power2 [of "2 * coord_bound"]
    by linarith
qed

lemma pow2_sub_ok:
  assumes "coord_ok x" "coord_ok y"
  shows "\<exists>r. float_pow2 (float_sub x y) = Inr r"
proof (cases x; cases y)
  fix a b assume xy: "x = Fin a" "y = Fin b"
  with assms have "\<bar>a\<bar> \<le> coord_bound" "\<bar>b\<bar> \<le> coord_bound" by (simp_all add: coord_ok_def)
  then show ?thesis by (simp add: xy sq_sub_bounded)
qed simp_all

lemma calculate_distance_f_ok:
  "loc_ok a \<Longrightarrow> loc_ok b \<Longrightarrow> \<exists>d. calculate_distance_f a b = Inr d"
  using pow2_sub_ok [of "fst a" "fst b"] pow2_sub_ok [of "snd a" "snd b"]
  by (auto simp: loc_ok_def calculate_distance_f_def)

lemma calculate_distance_f_Inl:
  "calculate_distance_f a b = Inl e \<Longrightarrow> \<exists>m. e = OverflowError m"
proof -
  have pow: "float_pow2 x = Inl e \<Longrightarrow> \<exists>m. e = OverflowError m" for x
    by (cases x) (auto split: if_splits)
  show "calculate_distance_f a b = Inl e \<Longrightarrow> \<exists>m. e = OverflowError m"
    by (auto simp: calculate_distance_f_def split: sum.splits dest: pow)
qed

section \<open>The loop over floats\<close>

lemma route_loop_f_Nil [simp]: "find_route_loop_f c [] rt = Inr rt"
  by (simp add: find_route_loop_f.simps)

lemma find_route_loop_f_Inl_overflow:
  "find_route_loop_f c rem rt = Inl e \<Longrightarrow> \<exists>m. e = OverflowError m"
proof (induction c rem rt rule: find_route_loop_f.induct)
  case (1 c rem rt)
  show ?case
  proof (cases "py_min_by (calculate_distance_f c) float_lt rem")
    case (Inl e')
    with "1.prems" have "rem \<noteq> []" and e: "e = e'"
      by (auto simp: find_route_loop_f.simps [of c rem] split: if_splits)
    with Inl show ?thesis
      by (auto dest!: py_min_by_Inl calculate_distance_f_Inl)
  next
    case (Inr y)
    then have "y \<in> set rem" by (rule py_min_by_Inr_in)
    with Inr "1.prems" "1.IH" show ?thesis
      by (auto simp: find_route_loop_f.simps [of c rem] py_builtin_simps split: if_splits)
  qed
qed

lemma find_route_loop_f_ok:
  "loc_ok c \<Longrightarrow> list_all loc_ok rem \<Longrightarrow>
   \<exists>t. find_route_loop_f c rem rt = Inr (rt @ t) \<and> mset t = mset rem"
proof (induction c rem rt rule: find_route_loop_f.induct)
  case (1 c rem rt)
  show ?case
  proof (cases "rem = []")
    case True
    then show ?thesis by simp
  next
    case False
    have "\<forall>x\<in>set rem. \<exists>k. calculate_distance_f c x = Inr k"
      using "1.prems" by (auto simp: list_all_iff intro: calculate_distance_f_ok)
    with False obtain y where y: "py_min_by (calculate_distance_f c) float_lt rem = Inr y"
      by (blast dest: py_min_by_total)
    then have mem: "y \<in> set rem" by (rule py_min_by_Inr_in)
    have ok: "loc_ok y" "list_all loc_ok (remove1 y rem)"
      using "1.prems"(2) mem by (auto simp: list_all_iff dest: in_set_remove1 [THEN iffD1, rotated])
    obtain t where t: "find_route_loop_f y (remove1 y rem) (rt @ [y]) = Inr ((rt @ [y]) @ t)"
      and mt: "mset t = mset (remove1 y rem)"
      using "1.IH" [OF False y _ ok] mem by (auto simp: py_builtin_simps)
    have "find_route_loop_f c rem rt = Inr (rt @ y # t)"
      using False y mem t by (simp add: find_route_loop_f.simps [of c rem] py_builtin_simps)
    moreover have "mset (y # t) = mset rem" using mt mem by simp
    ultimately show ?thesis by blast
  qed
qed

lemma float_lt_spo:
  "\<forall>k. \<not> float_lt k k" "\<forall>a b c. float_lt a b \<longrightarrow> float_lt b c \<longrightarrow> float_lt a c"
  by (simp, blast intro: float_lt_trans)

lemma float_lt_NaN [simp]: "\<not> float_lt k NaN"
  by (cases k) simp_all

text \<open>A successful run of the loop appends a greedy tour of the remaining locations.\<close>

lemma find_route_loop_f_tour:
  "find_route_loop_f c rem rt = Inr res \<Longrightarrow>
   \<exists>t. res = rt @ t \<and> greedy_tour calculate_distance_f float_lt c rem t"
proof (induction c rem rt arbitrary: res rule: find_route_loop_f.induct)
  case (1 c rem rt)
  show ?case
  proof (cases "rem = []")
    case True
    with "1.prems" show ?thesis by (auto intro: gt_done)
  next
    case False
    from "1.prems" False obtain y where
      y: "py_min_by (calculate_distance_f c) float_lt rem = Inr y"
      by (cases "py_min_by (calculate_distance_f c) float_lt rem")
         (auto simp: find_route_loop_f.simps [of c rem])
    then have mem: "y \<in> set rem" by (rule py_min_by_Inr_in)
    have run: "find_route_loop_f y (remove1 y rem) (rt @ [y]) = Inr res"
      using "1.prems" False y mem by (simp add: find_route_loop_f.simps [of c rem] py_builtin_simps)
    obtain t where t: "res = (rt @ [y]) @ t"
      and tour: "greedy_tour calculate_distance_f float_lt y (remove1 y rem) t"
      using "1.IH" [OF False y _ run] mem by (auto simp: py_builtin_simps)
    obtain ky where "calculate_distance_f c y = Inr ky"
      and "\<forall>z\<in>set rem. \<exists>kz. calculate_distance_f c z = Inr kz \<and> \<not> float_lt kz ky"
      using py_min_by_least [OF float_lt_spo y] by blast
    then have "greedy_tour calculate_distance_f float_lt c rem (y # t)"
      using mem tour by (blast intro: gt_next)
    with t show ?thesis by auto
  qed
qed

lemma greedy_tour_mset: "greedy_tour distf lt cur rem tour \<Longrightarrow> mset tour = mset rem"
  by (induction rule: greedy_tour.induct) simp_all

lemma greedy_tour_step:
  assumes "greedy_tour distf lt cur rem tour" and "i < j" and "j \<le> length tour"
  shows "\<exists>di dj. distf ((cur # tour) ! i) ((cur # tour) ! Suc i) = Inr di \<and>
           distf ((cur # tour) ! i) ((cur # tour) ! j) = Inr dj \<and> \<not> lt dj di"
  using assms
proof (induction arbitrary: i j rule: greedy_tour.induct)
  case (gt_done cur)
  then show ?case by simp
next
  case (gt_next y rem cur ky tour)
  show ?case
  proof (cases i)
    case 0
    from gt_next.prems obtain j' where j: "j = Suc j'" and "j' \<le> length tour"
      by (cases j) auto
    then have "(y # tour) ! j' \<in> set (y # tour)" by (intro nth_mem) simp
    also have "set (y # tour) = set rem"
      using greedy_tour_mset [OF gt_next.hyps(4)] gt_next.hyps(1)
      by (metis add_mset_remove1 mset.simps(2) set_mset_mset)
    finally show ?thesis using gt_next.hyps(2,3) 0 j by auto
  next
    case (Suc i')
    with gt_next.prems obtain j' where "j = Suc j'" "i' < j'" "j' \<le> length tour"
      by (cases j) auto
    with gt_next.IH [of i' j'] Suc show ?thesis by simp
  qed
qed

lemma find_optimal_route_f_Inr:
  "find_optimal_route_f p s = ([], r) \<Longrightarrow> find_route_loop_f s (locations_f p) [s] = Inr r"
  by (simp add: find_optimal_route_f_def split: sum.splits)

text \<open>The distance to a location with a NaN coordinate is NaN when it is computed.\<close>

lemma calculate_distance_f_NaN:
  "calculate_distance_f c l = Inr k \<Longrightarrow> fst l = NaN \<or> snd l = NaN \<Longrightarrow> k = NaN"
proof -
  have sub: "float_sub x NaN = NaN" for x by (cases x) simp_all
  have add: "float_add x NaN = NaN" for x by (cases x) simp_all
  show "calculate_distance_f c l = Inr k \<Longrightarrow> fst l = NaN \<or> snd l = NaN \<Longrightarrow> k = NaN"
    by (auto simp: calculate_distance_f_def sub add split: sum.splits)
qed

text \<open>The rules that evaluate the float planner on concrete coordinates by \<open>simp\<close>.\<close>

lemmas float_eval =
  find_optimal_route_f_def find_route_loop_f.simps calculate_distance_f_def
  float_of_real_def float_overflow_threshold_def

section \<open>Properties of the planner\<close>

text \<open>
  \<^bold>\<open>C1.\<close> Refinement of the greedy specification: whenever
  \<open>find_optimal_route\<close> prints nothing, its route is the start followed by a
  greedy tour of the locations, by the program's own distance and float
  \<open><\<close>, for every input (NaN and infinities included).
\<close>

theorem find_optimal_route_f_greedy_tour:
  assumes "find_optimal_route_f p s = ([], r)"
  shows "\<exists>t. r = s # t \<and> greedy_tour calculate_distance_f float_lt s (locations_f p) t"
  using find_route_loop_f_tour [OF find_optimal_route_f_Inr [OF assms]] by simp

text \<open>
  \<^bold>\<open>C2.\<close> Each step of a returned route goes to a nearest location not yet
  visited: for \<open>i < j\<close>, the distance from the \<open>i\<close>-th stop to the \<open>j\<close>-th
  is not below the distance to the \<open>(i+1)\<close>-th, both computed without raising.
\<close>

theorem route_greedy:
  assumes "find_optimal_route_f p s = ([], r)" and "i < j" and "j < length r"
  shows "\<exists>di dj. calculate_distance_f (r ! i) (r ! Suc i) = Inr di \<and>
           calculate_distance_f (r ! i) (r ! j) = Inr dj \<and> \<not> float_lt dj di"
proof -
  obtain t where r: "r = s # t"
    and tour: "greedy_tour calculate_distance_f float_lt s (locations_f p) t"
    using find_route_loop_f_tour [OF find_optimal_route_f_Inr [OF assms(1)]] by auto
  show ?thesis using greedy_tour_step [OF tour assms(2)] assms(3) r by simp
qed

text \<open>
  \<^bold>\<open>C3.\<close> Over Python floats, the only failure \<open>find_optimal_route\<close> can report
  is \<open>OverflowError\<close> from \<open>** 2\<close>: \<open>min\<close> and \<open>list.remove\<close> never raise
  \<open>ValueError\<close>, whatever the coordinates (NaN and infinities included).
\<close>

theorem find_optimal_route_f_only_overflow:
  assumes "fst (find_optimal_route_f p s) \<noteq> []"
  shows "\<exists>m. find_optimal_route_f p s = ([Error_Optimizing (OverflowError m)], [])"
proof (cases "find_route_loop_f s (locations_f p) [s]")
  case (Inl e)
  then show ?thesis
    by (auto simp: find_optimal_route_f_def dest: find_route_loop_f_Inl_overflow)
next
  case (Inr r)
  with assms show ?thesis by (simp add: find_optimal_route_f_def)
qed

text \<open>
  \<^bold>\<open>C4.\<close> With every finite coordinate of magnitude at most \<open>2^510\<close> (NaN and
  infinities allowed), the planner prints nothing and returns the start followed
  by a permutation of the locations: the \<open>except\<close> branch is unreachable.
\<close>

theorem find_optimal_route_f_bounded:
  assumes "list_all loc_ok (locations_f p)" and "loc_ok s"
  shows "fst (find_optimal_route_f p s) = [] \<and> hd (snd (find_optimal_route_f p s)) = s \<and>
         mset (tl (snd (find_optimal_route_f p s))) = mset (locations_f p)"
proof -
  obtain t where "find_route_loop_f s (locations_f p) [s] = Inr ([s] @ t)"
    and "mset t = mset (locations_f p)"
    using find_route_loop_f_ok [OF assms(2,1)] by blast
  then show ?thesis by (simp add: find_optimal_route_f_def)
qed

text \<open>
  \<^bold>\<open>C5.\<close> Stable tie-break: of two locations at the same computed distance
  from the start, the one listed first is visited first.
\<close>

theorem route_tie_break_first:
  assumes "calculate_distance_f s a = Inr d" and "calculate_distance_f s b = Inr d"
    and "calculate_distance_f a b = Inr d'"
  shows "find_optimal_route_f \<lparr>locations_f = [a, b]\<rparr> s = ([], [s, a, b])"
proof -
  have "remove1 a [a, b] = [b]" by simp
  then show ?thesis
    using assms by (simp add: find_optimal_route_f_def find_route_loop_f.simps py_builtin_simps)
qed

text \<open>
  \<^bold>\<open>C6.\<close> A NaN coordinate defeats the greedy choice: a location with a NaN
  coordinate listed first is the first stop of every returned route, since no
  float \<open><\<close> against its NaN distance holds, however near the others are.
\<close>

theorem nan_location_first:
  assumes "fst l = NaN \<or> snd l = NaN"
    and "find_optimal_route_f \<lparr>locations_f = l # ls\<rparr> s = ([], r)"
  shows "r ! 1 = l"
proof -
  let ?key = "calculate_distance_f s"
  have run: "find_route_loop_f s (l # ls) [s] = Inr r"
    using find_optimal_route_f_Inr [OF assms(2)] by simp
  then obtain y where y: "py_min_by ?key float_lt (l # ls) = Inr y"
    by (cases "py_min_by ?key float_lt (l # ls)") (simp_all add: find_route_loop_f.simps [of s])
  then obtain k where k: "?key l = Inr k" and m: "min_by_from ?key float_lt l k ls = Inr y"
    by (cases "?key l") auto
  have "k = NaN" using calculate_distance_f_NaN [OF k assms(1)] .
  then have yl: "y = l" using min_by_from_bottom [OF _ m] by simp
  have "find_route_loop_f l (remove1 l (l # ls)) [s, l] = Inr r"
    using run y yl by (simp add: find_route_loop_f.simps [of s] py_builtin_simps)
  then obtain t where "r = [s, l] @ t"
    using find_route_loop_f_tour by blast
  then show ?thesis by simp
qed

section \<open>Witnesses\<close>

theorem find_optimal_route_f_greedy_tour_witness:
  "find_optimal_route_f \<lparr>locations_f = [(Fin 3, Fin 0), (Fin 1, Fin 0)]\<rparr> (Fin 0, Fin 0) =
     ([], [(Fin 0, Fin 0), (Fin 1, Fin 0), (Fin 3, Fin 0)]) \<and>
   greedy_tour calculate_distance_f float_lt (Fin 0, Fin 0) [(Fin 3, Fin 0), (Fin 1, Fin 0)]
     [(Fin 1, Fin 0), (Fin 3, Fin 0)]"
proof -
  have r: "find_optimal_route_f \<lparr>locations_f = [(Fin 3, Fin 0), (Fin 1, Fin 0)]\<rparr> (Fin 0, Fin 0) =
     ([], [(Fin 0, Fin 0), (Fin 1, Fin 0), (Fin 3, Fin 0)])"
    by (simp add: float_eval)
  show ?thesis using r find_optimal_route_f_greedy_tour [OF r] by simp
qed

theorem route_greedy_witness:
  "find_optimal_route_f \<lparr>locations_f = [(Fin 3, Fin 0), (Fin 1, Fin 0)]\<rparr> (Fin 0, Fin 0) =
     ([], [(Fin 0, Fin 0), (Fin 1, Fin 0), (Fin 3, Fin 0)]) \<and>
   \<not> float_lt (Fin 3) (Fin 1)"
proof -
  have r: "find_optimal_route_f \<lparr>locations_f = [(Fin 3, Fin 0), (Fin 1, Fin 0)]\<rparr> (Fin 0, Fin 0) =
     ([], [(Fin 0, Fin 0), (Fin 1, Fin 0), (Fin 3, Fin 0)])"
    by (simp add: float_eval)
  obtain di dj where "calculate_distance_f (Fin 0, Fin 0) (Fin 1, Fin 0) = Inr di"
    and "calculate_distance_f (Fin 0, Fin 0) (Fin 3, Fin 0) = Inr dj" and "\<not> float_lt dj di"
    using route_greedy [OF r, of 0 2] by auto
  moreover have "calculate_distance_f (Fin 0, Fin 0) (Fin 1, Fin 0) = Inr (Fin 1)"
    and "calculate_distance_f (Fin 0, Fin 0) (Fin 3, Fin 0) = Inr (Fin 3)"
    by (simp_all add: float_eval)
  ultimately show ?thesis using r by simp
qed

theorem route_tie_break_first_witness:
  "calculate_distance_f (Fin 0, Fin 0) (Fin 1, Fin 0) = Inr (Fin 1) \<and>
   calculate_distance_f (Fin 0, Fin 0) (Fin 0, Fin 1) = Inr (Fin 1) \<and>
   calculate_distance_f (Fin 1, Fin 0) (Fin 0, Fin 1) = Inr (Fin (sqrt 2)) \<and>
   find_optimal_route_f \<lparr>locations_f = [(Fin 1, Fin 0), (Fin 0, Fin 1)]\<rparr> (Fin 0, Fin 0) =
     ([], [(Fin 0, Fin 0), (Fin 1, Fin 0), (Fin 0, Fin 1)])"
proof -
  have a: "calculate_distance_f (Fin 0, Fin 0) (Fin 1, Fin 0) = Inr (Fin 1)"
    and b: "calculate_distance_f (Fin 0, Fin 0) (Fin 0, Fin 1) = Inr (Fin 1)"
    and c: "calculate_distance_f (Fin 1, Fin 0) (Fin 0, Fin 1) = Inr (Fin (sqrt 2))"
    by (simp_all add: float_eval)
  show ?thesis using a b c route_tie_break_first [OF a b c] by simp
qed

theorem nan_location_first_witness:
  "fst (NaN, Fin 0) = NaN \<and>
   find_optimal_route_f \<lparr>locations_f = [(NaN, Fin 0), (Fin 1, Fin 0)]\<rparr> (Fin 0, Fin 0) =
     ([], [(Fin 0, Fin 0), (NaN, Fin 0), (Fin 1, Fin 0)]) \<and>
   [(Fin 0, Fin 0), (NaN, Fin 0), (Fin 1, Fin 0)] ! 1 = (NaN, Fin 0)"
proof -
  have n: "fst (NaN, Fin 0) = NaN \<or> snd (NaN, Fin 0) = NaN" by simp
  have r: "find_optimal_route_f \<lparr>locations_f = [(NaN, Fin 0), (Fin 1, Fin 0)]\<rparr> (Fin 0, Fin 0) =
     ([], [(Fin 0, Fin 0), (NaN, Fin 0), (Fin 1, Fin 0)])"
    by (simp add: float_eval)
  show ?thesis using r nan_location_first [OF n r] by simp
qed

theorem min_removes_selected_witness:
  "py_min_by (calculate_distance_f (Fin 0, Fin 0)) float_lt
     [(Fin 1, Fin 0), (NaN, Fin 0), (Fin 1, Fin 0)] = Inr (Fin 1, Fin 0) \<and>
   py_min_idx (calculate_distance_f (Fin 0, Fin 0)) float_lt
     [(Fin 1, Fin 0), (NaN, Fin 0), (Fin 1, Fin 0)] = Inr 0 \<and>
   remove1 (Fin 1, Fin 0) [(Fin 1, Fin 0), (NaN, Fin 0), (Fin 1, Fin 0)] =
     [(NaN, Fin 0), (Fin 1, Fin 0)]"
proof -
  have irr: "\<forall>k. \<not> float_lt k k" by simp
  have tr: "\<forall>a b c. float_lt a b \<longrightarrow> float_lt b c \<longrightarrow> float_lt a c"
    by (blast intro: float_lt_trans)
  have m: "py_min_by (calculate_distance_f (Fin 0, Fin 0)) float_lt
     [(Fin 1, Fin 0), (NaN, Fin 0), (Fin 1, Fin 0)] = Inr (Fin 1, Fin 0)"
    by (simp add: float_eval)
  obtain i where idx: "py_min_idx (calculate_distance_f (Fin 0, Fin 0)) float_lt
     [(Fin 1, Fin 0), (NaN, Fin 0), (Fin 1, Fin 0)] = Inr i" and "i < 3"
    and "remove1 (Fin 1, Fin 0) [(Fin 1, Fin 0), (NaN, Fin 0), (Fin 1, Fin 0)] =
         take i [(Fin 1, Fin 0), (NaN, Fin 0), (Fin 1, Fin 0)] @
         drop (Suc i) [(Fin 1, Fin 0), (NaN, Fin 0), (Fin 1, Fin 0)]"
    and "[(Fin 1, Fin 0), (NaN, Fin 0), (Fin 1, Fin 0)] ! i = (Fin 1, Fin 0)"
    using min_removes_selected [OF irr tr m] by auto
  moreover from this have "i = 0" by (cases i) (auto simp: less_Suc_eq)
  ultimately show ?thesis using m by simp
qed

theorem find_optimal_route_f_only_overflow_witness:
  "fst (find_optimal_route_f \<lparr>locations_f = [(Fin (10 ^ 200), Fin 0)]\<rparr> (Fin 0, Fin 0)) \<noteq> [] \<and>
   find_optimal_route_f \<lparr>locations_f = [(Fin (10 ^ 200), Fin 0)]\<rparr> (Fin 0, Fin 0) =
     ([Error_Optimizing (OverflowError ''(34, 'Numerical result out of range')'')], [])"
proof -
  have h: "fst (find_optimal_route_f \<lparr>locations_f = [(Fin (10 ^ 200), Fin 0)]\<rparr> (Fin 0, Fin 0)) \<noteq> []"
    by (simp add: float_eval)
  obtain m where "find_optimal_route_f \<lparr>locations_f = [(Fin (10 ^ 200), Fin 0)]\<rparr> (Fin 0, Fin 0) =
     ([Error_Optimizing (OverflowError m)], [])"
    using find_optimal_route_f_only_overflow [OF h] by blast
  moreover have "find_optimal_route_f \<lparr>locations_f = [(Fin (10 ^ 200), Fin 0)]\<rparr> (Fin 0, Fin 0) =
     ([Error_Optimizing (OverflowError ''(34, 'Numerical result out of range')'')], [])"
    by (simp add: float_eval)
  ultimately show ?thesis using h by simp
qed

theorem find_optimal_route_f_bounded_witness:
  "list_all loc_ok [(NaN, Fin 0), (Fin 1, Fin 0)] \<and> loc_ok (Fin 0, Fin 0) \<and>
   fst (find_optimal_route_f \<lparr>locations_f = [(NaN, Fin 0), (Fin 1, Fin 0)]\<rparr> (Fin 0, Fin 0)) = [] \<and>
   mset (tl (snd (find_optimal_route_f \<lparr>locations_f = [(NaN, Fin 0), (Fin 1, Fin 0)]\<rparr> (Fin 0, Fin 0)))) =
     mset [(NaN, Fin 0), (Fin 1, Fin 0)]"
proof -
  have a: "list_all loc_ok (locations_f \<lparr>locations_f = [(NaN, Fin 0), (Fin 1, Fin 0)]\<rparr>)"
    and b: "loc_ok (Fin 0, Fin 0)"
    by (simp_all add: loc_ok_def coord_ok_def coord_bound_def)
  show ?thesis using a b find_optimal_route_f_bounded [OF a b] by simp
qed

end
