(* ===== verification/PlannerLoop.thy ===== *)
theory PlannerLoop
  imports FloatPlanner
begin

text \<open>
  The \<open>while\<close> loop of \<open>find_optimal_route\<close> (src/main.py lines 22--30) over
  Python floats, as a state machine: the three loop variables form a record, one
  iteration is \<open>loop_body\<close>, the four statements of lines 27--30 in their order,
  which raises what \<open>min\<close>'s key raises, and \<open>loop_step\<close> is an iteration
  taken under the loop guard that returns normally. The reachable loop states
  from \<open>loop_init\<close> keep the loop invariant \<open>loop_inv\<close>; an iteration under the
  guard either raises \<open>OverflowError\<close> or shortens the remaining list; and with
  coordinates of magnitude at most \<open>2^510\<close> (or non-finite) the loop runs to
  its final state.
\<close>

section \<open>The loop as a state machine\<close>

record loop_state =
  current_location :: location_f
  remaining_locations :: "location_f list"
  route :: "location_f list"

definition loop_init :: "route_planner_f \<Rightarrow> location_f \<Rightarrow> loop_state" where
  "loop_init self start_location =
     \<lparr>current_location = start_location, remaining_locations = locations_f self,
      route = [start_location]\<rparr>"

definition loop_body :: "loop_state \<Rightarrow> loop_state py_result" where
  "loop_body s =
     (case py_min_by (calculate_distance_f (current_location s)) float_lt (remaining_locations s) of
        Inl e \<Rightarrow> Inl e
      | Inr next_location \<Rightarrow>
          (let s1 = s\<lparr>route := route s @ [next_location]\<rparr>;
               s2 = s1\<lparr>current_location := next_location\<rparr>
           in (case py_list_remove next_location (remaining_locations s2) of
                 Inl e \<Rightarrow> Inl e
               | Inr rem \<Rightarrow> Inr (s2\<lparr>remaining_locations := rem\<rparr>))))"

inductive loop_step :: "loop_state \<Rightarrow> loop_state \<Rightarrow> bool" where
  iterate: "remaining_locations s \<noteq> [] \<Longrightarrow> loop_body s = Inr s' \<Longrightarrow> loop_step s s'"

inductive loop_reachable :: "route_planner_f \<Rightarrow> location_f \<Rightarrow> loop_state \<Rightarrow> bool"
  for self start_location where
  reach_start: "loop_reachable self start_location (loop_init self start_location)"
| reach_step: "loop_reachable self start_location s \<Longrightarrow> loop_step s s' \<Longrightarrow>
    loop_reachable self start_location s'"

text \<open>
  The loop invariant: the route is non-empty, starts at the start location and
  ends at the current location, and the visited stops together with the remaining
  locations are the planner's locations.
\<close>

definition loop_inv :: "route_planner_f \<Rightarrow> location_f \<Rightarrow> loop_state \<Rightarrow> bool" where
  "loop_inv self start_location s \<longleftrightarrow>
     route s \<noteq> [] \<and> hd (route s) = start_location \<and> last (route s) = current_location s \<and>
     mset (tl (route s)) + mset (remaining_locations s) = mset (locations_f self)"

inductive_cases loop_stepE: "loop_step s s'"

section \<open>One iteration\<close>

lemma loop_body_Inr:
  assumes "loop_body s = Inr s'"
  shows "\<exists>y. y \<in> set (remaining_locations s) \<and>
     s' = \<lparr>current_location = y, remaining_locations = remove1 y (remaining_locations s),
           route = route s @ [y]\<rparr>"
proof -
  from assms obtain y where
    y: "py_min_by (calculate_distance_f (current_location s)) float_lt (remaining_locations s) = Inr y"
    by (cases "py_min_by (calculate_distance_f (current_location s)) float_lt (remaining_locations s)")
       (simp_all add: loop_body_def)
  then have mem: "y \<in> set (remaining_locations s)" by (rule py_min_by_Inr_in)
  have "s' = \<lparr>current_location = y, remaining_locations = remove1 y (remaining_locations s),
              route = route s @ [y]\<rparr>"
    using assms y mem by (cases s) (simp add: loop_body_def py_builtin_simps)
  with mem show ?thesis by blast
qed

lemma loop_body_Inl:
  "remaining_locations s \<noteq> [] \<Longrightarrow> loop_body s = Inl e \<Longrightarrow> \<exists>m. e = OverflowError m"
  by (auto simp: loop_body_def py_builtin_simps Let_def split: sum.splits if_splits
           dest!: py_min_by_Inl calculate_distance_f_Inl py_min_by_Inr_in)

lemma loop_body_total:
  assumes "remaining_locations s \<noteq> []" and "loc_ok (current_location s)"
    and "list_all loc_ok (remaining_locations s)"
  shows "\<exists>s'. loop_body s = Inr s'"
proof -
  have "\<forall>x\<in>set (remaining_locations s). \<exists>k. calculate_distance_f (current_location s) x = Inr k"
    using assms(2,3) by (auto simp: list_all_iff intro: calculate_distance_f_ok)
  with assms(1) obtain y where
    y: "py_min_by (calculate_distance_f (current_location s)) float_lt (remaining_locations s) = Inr y"
    by (blast dest: py_min_by_total)
  then have "y \<in> set (remaining_locations s)" by (rule py_min_by_Inr_in)
  with y show ?thesis by (simp add: loop_body_def py_builtin_simps)
qed

lemma loop_step_eq:
  "loop_step s s' \<longleftrightarrow> remaining_locations s \<noteq> [] \<and> loop_body s = Inr s'"
  by (auto elim: loop_stepE intro: iterate)

lemma loop_step_shortens:
  "loop_step s s' \<Longrightarrow> length (remaining_locations s') = length (remaining_locations s) - 1"
  by (auto simp: loop_step_eq length_remove1 dest!: loop_body_Inr)

lemma loop_step_inv:
  assumes "loop_inv p st s" and "loop_step s s'"
  shows "loop_inv p st s'"
proof -
  obtain y where mem: "y \<in> set (remaining_locations s)"
    and s': "s' = \<lparr>current_location = y, remaining_locations = remove1 y (remaining_locations s),
                    route = route s @ [y]\<rparr>"
    using assms(2) by (auto simp: loop_step_eq dest!: loop_body_Inr)
  have ne: "route s \<noteq> []" using assms(1) by (simp add: loop_inv_def)
  have "mset (tl (route s @ [y])) + mset (remove1 y (remaining_locations s)) =
        mset (tl (route s)) + add_mset y (mset (remaining_locations s) - {#y#})"
    using ne by (simp add: tl_append2)
  also have "\<dots> = mset (tl (route s)) + mset (remaining_locations s)"
    using mem by (simp add: insert_DiffM)
  finally have "mset (tl (route s @ [y])) + mset (remove1 y (remaining_locations s)) =
        mset (tl (route s)) + mset (remaining_locations s)" .
  with assms(1) s' show ?thesis by (simp add: loop_inv_def hd_append)
qed

lemma loop_inv_init: "loop_inv p st (loop_init p st)"
  by (simp add: loop_inv_def loop_init_def)

lemma loop_step_loc_ok:
  "loop_step s s' \<Longrightarrow> list_all loc_ok (remaining_locations s) \<Longrightarrow>
   loc_ok (current_location s') \<and> list_all loc_ok (remaining_locations s')"
  by (auto simp: loop_step_eq list_all_iff dest!: loop_body_Inr dest: in_set_remove1 [THEN iffD1, rotated])

section \<open>Properties of the loop\<close>

text \<open>
  \<^bold>\<open>C8.\<close> Loop invariant: in every loop state reachable from the initial one,
  the route starts at the start location and ends at the current location, and
  the visited stops (after the start) together with the remaining locations
  are exactly the planner's locations (as a multiset).
\<close>

theorem loop_reachable_inv: "loop_reachable p st s \<Longrightarrow> loop_inv p st s"
proof (induction rule: loop_reachable.induct)
  case reach_start
  show ?case by (rule loop_inv_init)
next
  case (reach_step s s')
  then show ?case by (blast intro: loop_step_inv)
qed

text \<open>
  \<^bold>\<open>C9.\<close> Progress with the error path: whenever the loop guard holds, the
  body either raises \<open>OverflowError\<close> (never \<open>ValueError\<close>) or takes a step
  that shortens the remaining list by one, the variant of the \<open>while\<close> loop.
\<close>

theorem loop_progress:
  assumes "remaining_locations s \<noteq> []"
  shows "(\<exists>m. loop_body s = Inl (OverflowError m)) \<or>
         (\<exists>s'. loop_step s s' \<and> length (remaining_locations s') < length (remaining_locations s))"
proof (cases "loop_body s")
  case (Inl e)
  then show ?thesis using loop_body_Inl [OF assms] by auto
next
  case (Inr s')
  with assms have "loop_step s s'" by (rule iterate)
  moreover have "length (remaining_locations s') < length (remaining_locations s)"
    using loop_step_shortens [OF \<open>loop_step s s'\<close>] assms by simp
  ultimately show ?thesis by blast
qed

text \<open>
  \<^bold>\<open>C10.\<close> Liveness: from a loop state whose coordinates are of magnitude at
  most \<open>2^510\<close> (or non-finite), the loop reaches a state with no remaining
  locations, in exactly as many iterations as locations remain.
\<close>

theorem loop_eventually_done:
  assumes "loc_ok (current_location s)" and "list_all loc_ok (remaining_locations s)"
  shows "\<exists>s'. (loop_step ^^ length (remaining_locations s)) s s' \<and> remaining_locations s' = []"
  using assms
proof (induction "length (remaining_locations s)" arbitrary: s)
  case 0
  then show ?case by simp
next
  case (Suc n)
  then have ne: "remaining_locations s \<noteq> []" by auto
  obtain t where "loop_body s = Inr t"
    using loop_body_total [OF ne Suc.prems] by blast
  with ne have st: "loop_step s t" by (rule iterate)
  have n: "n = length (remaining_locations t)"
    using loop_step_shortens [OF st] Suc.hyps(2) by simp
  have ok: "loc_ok (current_location t)" "list_all loc_ok (remaining_locations t)"
    using loop_step_loc_ok [OF st Suc.prems(2)] by simp_all
  from Suc.hyps(1) [OF n ok] n obtain u where "(loop_step ^^ n) t u" "remaining_locations u = []"
    by auto
  with st Suc.hyps(2) show ?case by (metis relpowp_Suc_I2)
qed

section \<open>Witnesses\<close>

theorem loop_reachable_inv_witness:
  "loop_reachable \<lparr>locations_f = [(Fin 1, Fin 0), (Fin 3, Fin 0)]\<rparr> (Fin 0, Fin 0)
     \<lparr>current_location = (Fin 1, Fin 0), remaining_locations = [(Fin 3, Fin 0)],
      route = [(Fin 0, Fin 0), (Fin 1, Fin 0)]\<rparr> \<and>
   loop_inv \<lparr>locations_f = [(Fin 1, Fin 0), (Fin 3, Fin 0)]\<rparr> (Fin 0, Fin 0)
     \<lparr>current_location = (Fin 1, Fin 0), remaining_locations = [(Fin 3, Fin 0)],
      route = [(Fin 0, Fin 0), (Fin 1, Fin 0)]\<rparr>"
proof -
  have "loop_step (loop_init \<lparr>locations_f = [(Fin 1, Fin 0), (Fin 3, Fin 0)]\<rparr> (Fin 0, Fin 0))
     \<lparr>current_location = (Fin 1, Fin 0), remaining_locations = [(Fin 3, Fin 0)],
      route = [(Fin 0, Fin 0), (Fin 1, Fin 0)]\<rparr>"
    by (simp add: loop_step_eq loop_init_def loop_body_def float_eval)
  then have r: "loop_reachable \<lparr>locations_f = [(Fin 1, Fin 0), (Fin 3, Fin 0)]\<rparr> (Fin 0, Fin 0)
     \<lparr>current_location = (Fin 1, Fin 0), remaining_locations = [(Fin 3, Fin 0)],
      route = [(Fin 0, Fin 0), (Fin 1, Fin 0)]\<rparr>"
    by (rule reach_step [OF reach_start])
  show ?thesis using r loop_reachable_inv [OF r] by simp
qed

theorem loop_progress_witness:
  "remaining_locations (loop_init \<lparr>locations_f = [(Fin (10 ^ 200), Fin 0)]\<rparr> (Fin 0, Fin 0)) \<noteq> [] \<and>
   loop_body (loop_init \<lparr>locations_f = [(Fin (10 ^ 200), Fin 0)]\<rparr> (Fin 0, Fin 0)) =
     Inl (OverflowError ''(34, 'Numerical result out of range')'')"
proof -
  have h: "remaining_locations (loop_init \<lparr>locations_f = [(Fin (10 ^ 200), Fin 0)]\<rparr> (Fin 0, Fin 0)) \<noteq> []"
    by (simp add: loop_init_def)
  have b: "loop_body (loop_init \<lparr>locations_f = [(Fin (10 ^ 200), Fin 0)]\<rparr> (Fin 0, Fin 0)) =
     Inl (OverflowError ''(34, 'Numerical result out of range')'')"
    by (simp add: loop_init_def loop_body_def float_eval)
  show ?thesis using h b loop_progress [OF h] by simp
qed

theorem loop_eventually_done_witness:
  "loc_ok (Fin 0, Fin 0) \<and> list_all loc_ok [(NaN, Fin 0), (Fin 1, PosInf)] \<and>
   (\<exists>s'. (loop_step ^^ 2)
      \<lparr>current_location = (Fin 0, Fin 0), remaining_locations = [(NaN, Fin 0), (Fin 1, PosInf)],
       route = [(Fin 0, Fin 0)]\<rparr> s' \<and> remaining_locations s' = [])"
proof -
  have a: "loc_ok (current_location \<lparr>current_location = (Fin 0, Fin 0),
      remaining_locations = [(NaN, Fin 0), (Fin 1, PosInf)], route = [(Fin 0, Fin 0)]\<rparr>)"
    and b: "list_all loc_ok (remaining_locations \<lparr>current_location = (Fin 0, Fin 0),
      remaining_locations = [(NaN, Fin 0), (Fin 1, PosInf)], route = [(Fin 0, Fin 0)]\<rparr>)"
    by (simp_all add: loc_ok_def coord_ok_def coord_bound_def)
  show ?thesis using a b loop_eventually_done [OF a b] by (simp add: numeral_2_eq_2)
qed

end
