(* ===== verification/Inventory.thy ===== *)
theory Inventory
  imports PyBuiltins
begin

text \<open>
  The \<open>InventoryManager\<close> class of src/main.py (lines 37--52): a dict from item
  name to quantity, \<open>update_inventory\<close> (add to an existing entry, create a new
  one otherwise), \<open>get_inventory_status\<close> and \<open>check_inventory\<close>. The dict is the
  insertion-ordered association list of PyBuiltins. Beside it stands the abstract
  keyed counter of the specification (\<open>increment\<close>, \<open>quantity_of\<close>,
  \<open>has_at_least\<close> on a map \<open>string \<rightharpoonup> int\<close>), which the class refines through
  \<open>inv_abs\<close>; \<open>inventory_nonneg\<close> is the specification's non-negative stock.
\<close>

section \<open>The model of the code\<close>

text \<open>Python ints are unbounded: quantities are \<open>int\<close>, negative ones included.\<close>

record inventory_manager =
  inventory :: "(string \<times> int) list"

definition init_inventory_manager :: inventory_manager where
  "init_inventory_manager = \<lparr>inventory = []\<rparr>"

text \<open>
  \<open>self.inventory[item] += quantity\<close> reads the entry (a \<open>KeyError\<close> if it were
  absent) and stores the sum; the \<open>in\<close> test guards the read.
\<close>

definition update_inventory ::
  "inventory_manager \<Rightarrow> string \<Rightarrow> int \<Rightarrow> inventory_manager py_result" where
  "update_inventory self item quantity =
     (if py_dict_contains item (inventory self) then
        (case py_dict_getitem (inventory self) item of
           Inl e \<Rightarrow> Inl e
         | Inr old \<Rightarrow>
             Inr (self\<lparr>inventory := py_dict_setitem (inventory self) item (old + quantity)\<rparr>))
      else Inr (self\<lparr>inventory := py_dict_setitem (inventory self) item quantity\<rparr>))"

definition get_inventory_status :: "inventory_manager \<Rightarrow> (string \<times> int) list" where
  "get_inventory_status self = inventory self"

definition check_inventory :: "inventory_manager \<Rightarrow> string \<Rightarrow> int \<Rightarrow> bool" where
  "check_inventory self item required_quantity \<longleftrightarrow>
     py_dict_get (inventory self) item 0 \<ge> required_quantity"

section \<open>The abstract keyed counter\<close>

definition quantity_of :: "(string \<rightharpoonup> int) \<Rightarrow> string \<Rightarrow> int" where
  "quantity_of M item = (case M item of None \<Rightarrow> 0 | Some q \<Rightarrow> q)"

definition increment :: "(string \<rightharpoonup> int) \<Rightarrow> string \<Rightarrow> int \<Rightarrow> (string \<rightharpoonup> int)" where
  "increment M item q = M(item \<mapsto> quantity_of M item + q)"

definition has_at_least :: "(string \<rightharpoonup> int) \<Rightarrow> string \<Rightarrow> int \<Rightarrow> bool" where
  "has_at_least M item required \<longleftrightarrow> quantity_of M item \<ge> required"

definition inv_abs :: "inventory_manager \<Rightarrow> (string \<rightharpoonup> int)" where
  "inv_abs self = map_of (inventory self)"

definition inventory_nonneg :: "inventory_manager \<Rightarrow> bool" where
  "inventory_nonneg self \<longleftrightarrow> list_all (\<lambda>(item, q). 0 \<le> q) (inventory self)"

section \<open>The operations, one equation each\<close>

lemma update_inventory_eq:
  "update_inventory m item q =
     Inr (m\<lparr>inventory := AList.update item (quantity_of (inv_abs m) item + q) (inventory m)\<rparr>)"
proof (cases "py_dict_contains item (inventory m)")
  case True
  then obtain v where "py_dict_getitem (inventory m) item = Inr v"
    and "map_of (inventory m) item = Some v"
    by (blast dest: py_dict_getitem_contains)
  with True show ?thesis
    by (simp add: update_inventory_def py_dict_setitem_def quantity_of_def inv_abs_def)
next
  case False
  then have "map_of (inventory m) item = None"
    by (simp add: py_dict_contains_def map_of_eq_None_iff)
  with False show ?thesis
    by (simp add: update_inventory_def py_dict_setitem_def quantity_of_def inv_abs_def)
qed

lemma check_inventory_abs: "check_inventory m item r \<longleftrightarrow> has_at_least (inv_abs m) item r"
  by (simp add: check_inventory_def has_at_least_def py_dict_get_def quantity_of_def inv_abs_def)

lemma inv_abs_update:
  "update_inventory m item q = Inr m' \<Longrightarrow> inv_abs m' = increment (inv_abs m) item q"
  by (auto simp: update_inventory_eq increment_def inv_abs_def update_conv')

lemma quantity_of_increment:
  "quantity_of (increment M item q) j = (if j = item then quantity_of M item + q else quantity_of M j)"
  by (simp add: quantity_of_def increment_def)

lemma quantity_of_nonneg:
  "inventory_nonneg m \<Longrightarrow> 0 \<le> quantity_of (inv_abs m) item"
  by (auto simp: inventory_nonneg_def quantity_of_def inv_abs_def list_all_iff
           dest: map_of_SomeD split: option.splits)

text \<open>The rules that evaluate inventory operations on concrete dicts by \<open>simp\<close>.\<close>

lemmas inventory_eval =
  update_inventory_eq check_inventory_abs has_at_least_def quantity_of_def inv_abs_def
  init_inventory_manager_def get_inventory_status_def

section \<open>Properties of the inventory\<close>

text \<open>
  \<^bold>\<open>C12.\<close> \<open>update_inventory\<close> refines the abstract \<open>increment\<close> of the
  specification, and the \<open>KeyError\<close> of \<open>self.inventory[item]\<close> is unreachable:
  the result is always a new state whose dict, read as a map, is the old map with
  \<open>item\<close> incremented by \<open>quantity\<close> (from 0 when it was absent).
\<close>

theorem update_inventory_refines:
  "map_sum id inv_abs (update_inventory m item q) = Inr (increment (inv_abs m) item q)"
  by (simp add: update_inventory_eq increment_def inv_abs_def update_conv')

text \<open>
  \<^bold>\<open>C13.\<close> After \<open>update_inventory(item, q)\<close>, \<open>check_inventory(item, r)\<close>
  holds exactly when the old quantity (0 if absent) plus \<open>q\<close> is at least \<open>r\<close>.
\<close>

theorem check_after_update:
  assumes "update_inventory m item q = Inr m'"
  shows "check_inventory m' item r \<longleftrightarrow> quantity_of (inv_abs m) item + q \<ge> r"
  using inv_abs_update [OF assms] by (simp add: check_inventory_abs has_at_least_def quantity_of_increment)

theorem check_after_update_witness:
  "update_inventory init_inventory_manager ''item_1'' 100 = Inr \<lparr>inventory = [(''item_1'', 100)]\<rparr> \<and>
   check_inventory \<lparr>inventory = [(''item_1'', 100)]\<rparr> ''item_1'' 20 \<and>
   \<not> check_inventory \<lparr>inventory = [(''item_1'', 100)]\<rparr> ''item_1'' 101"
proof -
  have u: "update_inventory init_inventory_manager ''item_1'' 100 = Inr \<lparr>inventory = [(''item_1'', 100)]\<rparr>"
    by (simp add: inventory_eval)
  show ?thesis
    using u check_after_update [OF u, of 20] check_after_update [OF u, of 101]
    by (simp add: inventory_eval)
qed

text \<open>
  \<^bold>\<open>C14.\<close> Adding a non-negative quantity never turns a satisfied availability
  check into a failed one, for any item.
\<close>

theorem check_inventory_monotone:
  assumes "0 \<le> q" and "update_inventory m item q = Inr m'" and "check_inventory m j r"
  shows "check_inventory m' j r"
  using assms inv_abs_update [OF assms(2)]
  by (auto simp: check_inventory_abs has_at_least_def quantity_of_increment)

theorem check_inventory_monotone_witness:
  "0 \<le> (5::int) \<and>
   update_inventory \<lparr>inventory = [(''item_1'', 100)]\<rparr> ''item_1'' 5 = Inr \<lparr>inventory = [(''item_1'', 105)]\<rparr> \<and>
   check_inventory \<lparr>inventory = [(''item_1'', 100)]\<rparr> ''item_1'' 20 \<and>
   check_inventory \<lparr>inventory = [(''item_1'', 105)]\<rparr> ''item_1'' 20"
proof -
  have q: "0 \<le> (5::int)" by simp
  have u: "update_inventory \<lparr>inventory = [(''item_1'', 100)]\<rparr> ''item_1'' 5 = Inr \<lparr>inventory = [(''item_1'', 105)]\<rparr>"
    by (simp add: inventory_eval)
  have c: "check_inventory \<lparr>inventory = [(''item_1'', 100)]\<rparr> ''item_1'' 20"
    by (simp add: inventory_eval)
  show ?thesis using q u c check_inventory_monotone [OF q u c] by simp
qed

text \<open>
  \<^bold>\<open>C15.\<close> Non-negative stock is preserved by non-negative updates.
\<close>

theorem update_inventory_nonneg:
  assumes "inventory_nonneg m" and "0 \<le> q" and "update_inventory m item q = Inr m'"
  shows "inventory_nonneg m'"
proof -
  have "0 \<le> quantity_of (inv_abs m) item + q"
    using quantity_of_nonneg [OF assms(1)] assms(2) by simp
  with assms show ?thesis
    by (auto simp: inventory_nonneg_def update_inventory_eq)
qed

theorem update_inventory_nonneg_witness:
  "inventory_nonneg \<lparr>inventory = [(''item_1'', 100)]\<rparr> \<and> 0 \<le> (75::int) \<and>
   update_inventory \<lparr>inventory = [(''item_1'', 100)]\<rparr> ''item_2'' 75 =
     Inr \<lparr>inventory = [(''item_1'', 100), (''item_2'', 75)]\<rparr> \<and>
   inventory_nonneg \<lparr>inventory = [(''item_1'', 100), (''item_2'', 75)]\<rparr>"
proof -
  have n: "inventory_nonneg \<lparr>inventory = [(''item_1'', 100)]\<rparr>"
    by (simp add: inventory_nonneg_def)
  have q: "0 \<le> (75::int)" by simp
  have u: "update_inventory \<lparr>inventory = [(''item_1'', 100)]\<rparr> ''item_2'' 75 =
     Inr \<lparr>inventory = [(''item_1'', 100), (''item_2'', 75)]\<rparr>"
    by (simp add: inventory_eval)
  show ?thesis using n q u update_inventory_nonneg [OF n q u] by simp
qed

end
