(* ===== verification/InventoryHeap.thy ===== *)
theory InventoryHeap
  imports Inventory
begin

text \<open>
  \<open>InventoryManager\<close> (src/main.py lines 37--52) with Python's object model made
  explicit. \<open>self.inventory\<close> holds a reference to a dict object on a heap, and
  \<open>get_inventory_status\<close> (line 48) returns that reference, not a copy: the
  caller and the manager share one dict. The heap follows Imperative HOL's
  references: \<open>dicts\<close> maps every address to a dict, \<open>lim\<close> is the next free
  address, and \<open>dict_alloc\<close> hands out \<open>lim\<close>. The value model of Inventory is
  the view of this one through the manager's reference (\<open>inv_view\<close>), which
  lets the heap methods be computed by the value lemmas; the properties are that
  a write through the returned status changes the manager, and that two managers
  never share a dict.
\<close>

section \<open>The heap of dict objects\<close>

type_synonym addr = nat

type_synonym py_dict = "(string \<times> int) list"

record py_heap =
  dicts :: "addr \<Rightarrow> py_dict"
  lim :: addr

definition empty_heap :: py_heap where
  "empty_heap = \<lparr>dicts = (\<lambda>_. []), lim = 0\<rparr>"

definition present :: "py_heap \<Rightarrow> addr \<Rightarrow> bool" where
  "present h r \<longleftrightarrow> r < lim h"

text \<open>A dict display \<open>{}\<close>: a new object at the next free address.\<close>

definition dict_alloc :: "py_dict \<Rightarrow> py_heap \<Rightarrow> addr \<times> py_heap" where
  "dict_alloc d h = (lim h, \<lparr>dicts = (dicts h)(lim h := d), lim = Suc (lim h)\<rparr>)"

definition dict_store :: "addr \<Rightarrow> py_dict \<Rightarrow> py_heap \<Rightarrow> py_heap" where
  "dict_store r d h = h\<lparr>dicts := (dicts h)(r := d)\<rparr>"

text \<open>\<open>d[k] = v\<close> on the dict object at \<open>r\<close>, whoever holds the reference.\<close>

definition py_ref_setitem :: "py_heap \<Rightarrow> addr \<Rightarrow> string \<Rightarrow> int \<Rightarrow> py_heap" where
  "py_ref_setitem h r k v = dict_store r (py_dict_setitem (dicts h r) k v) h"

section \<open>The class over the heap\<close>

record inventory_manager_h =
  inventory_ref :: addr

definition init_inventory_manager_h :: "py_heap \<Rightarrow> inventory_manager_h \<times> py_heap" where
  "init_inventory_manager_h h = (let (r, h') = dict_alloc [] h in (\<lparr>inventory_ref = r\<rparr>, h'))"

definition update_inventory_h ::
  "py_heap \<Rightarrow> inventory_manager_h \<Rightarrow> string \<Rightarrow> int \<Rightarrow> py_heap py_result" where
  "update_inventory_h h self item quantity =
     (let r = inventory_ref self in
      if py_dict_contains item (dicts h r) then
        (case py_dict_getitem (dicts h r) item of
           Inl e \<Rightarrow> Inl e
         | Inr old \<Rightarrow> Inr (py_ref_setitem h r item (old + quantity)))
      else Inr (py_ref_setitem h r item quantity))"

definition get_inventory_status_h :: "inventory_manager_h \<Rightarrow> addr" where
  "get_inventory_status_h self = inventory_ref self"

definition check_inventory_h :: "py_heap \<Rightarrow> inventory_manager_h \<Rightarrow> string \<Rightarrow> int \<Rightarrow> bool" where
  "check_inventory_h h self item required_quantity \<longleftrightarrow>
     py_dict_get (dicts h (inventory_ref self)) item 0 \<ge> required_quantity"

text \<open>The manager as the value model sees it: the dict its reference points to.\<close>

definition inv_view :: "py_heap \<Rightarrow> inventory_manager_h \<Rightarrow> inventory_manager" where
  "inv_view h self = \<lparr>inventory = dicts h (inventory_ref self)\<rparr>"

section \<open>Heap lemmas\<close>

lemma dicts_dict_store [simp]:
  "dicts (dict_store r d h) r' = (if r' = r then d else dicts h r')"
  by (simp add: dict_store_def)

lemma lim_dict_store [simp]: "lim (dict_store r d h) = lim h"
  by (simp add: dict_store_def)

lemma dict_alloc_fresh:
  "dict_alloc d h = (r, h') \<Longrightarrow> \<not> present h r \<and> present h' r \<and> dicts h' r = d"
  by (auto simp: dict_alloc_def present_def)

lemma update_inventory_h_store:
  "update_inventory_h h self item q = Inr h' \<Longrightarrow>
   \<exists>d. h' = dict_store (inventory_ref self) d h"
  by (auto simp: update_inventory_h_def py_ref_setitem_def Let_def split: if_splits sum.splits)

section \<open>The methods through the value model\<close>

lemma update_inventory_h_view:
  "update_inventory_h h self item q =
     map_sum id (\<lambda>m. dict_store (inventory_ref self) (inventory m) h)
       (update_inventory (inv_view h self) item q)"
  by (simp add: update_inventory_h_def update_inventory_def inv_view_def py_ref_setitem_def
      Let_def split: sum.split)

lemma inv_view_dict_store [simp]:
  "inv_view (dict_store (inventory_ref self) d h) self = \<lparr>inventory = d\<rparr>"
  by (simp add: inv_view_def)

section \<open>Aliasing\<close>

text \<open>
  \<^bold>\<open>C16.\<close> Aliasing: \<open>get_inventory_status\<close> returns the manager's own dict,
  so a caller's \<open>status[item] = v\<close> sets the manager's stock of \<open>item\<close> to
  \<open>v\<close> outside \<open>update_inventory\<close>: afterwards the manager's dict is the old
  one with that entry set, and \<open>check_inventory\<close> answers from \<open>v\<close>.
\<close>

theorem status_write_aliases:
  "inv_view (py_ref_setitem h (get_inventory_status_h self) item v) self =
     \<lparr>inventory = py_dict_setitem (inventory (inv_view h self)) item v\<rparr> \<and>
   check_inventory_h (py_ref_setitem h (get_inventory_status_h self) item v) self item req =
     (req \<le> v)"
  by (simp add: py_ref_setitem_def get_inventory_status_h_def inv_view_def check_inventory_h_def
      py_dict_get_def map_of_py_dict_setitem)

section \<open>Separation\<close>

text \<open>
  \<^bold>\<open>C17.\<close> Separation: a manager created after another gets a fresh dict, so
  no update through the new manager, in any later heap, changes what the older
  manager's \<open>check_inventory\<close> answers.
\<close>

theorem managers_separate:
  assumes "present h (inventory_ref m1)"
    and "init_inventory_manager_h h = (m2, h1)"
    and "update_inventory_h h2 m2 item q = Inr h3"
  shows "check_inventory_h h3 m1 item' r = check_inventory_h h2 m1 item' r"
proof -
  obtain a h1' where a: "dict_alloc [] h = (a, h1')"
    by (cases "dict_alloc [] h")
  with assms(2) have m2: "m2 = \<lparr>inventory_ref = a\<rparr>"
    by (simp add: init_inventory_manager_h_def)
  from dict_alloc_fresh [OF a] assms(1) have "inventory_ref m1 \<noteq> a" by auto
  moreover obtain d where "h3 = dict_store a d h2"
    using update_inventory_h_store [OF assms(3)] m2 by auto
  ultimately show ?thesis by (simp add: check_inventory_h_def)
qed

section \<open>Witnesses\<close>

theorem managers_separate_witness:
  "check_inventory_h
     (py_ref_setitem (snd (dict_alloc [] (snd (dict_alloc [(''item_1'', 100)] empty_heap)))) 1
        ''item_1'' 5)
     \<lparr>inventory_ref = 0\<rparr> ''item_1'' 20"
proof -
  let ?h = "snd (dict_alloc [(''item_1'', 100)] empty_heap)"
  let ?h2 = "snd (dict_alloc [] ?h)"
  have p: "present ?h (inventory_ref \<lparr>inventory_ref = 0\<rparr>)"
    by (simp add: dict_alloc_def empty_heap_def present_def)
  have i: "init_inventory_manager_h ?h = (\<lparr>inventory_ref = 1\<rparr>, ?h2)"
    by (simp add: init_inventory_manager_h_def dict_alloc_def empty_heap_def)
  have u: "update_inventory_h ?h2 \<lparr>inventory_ref = 1\<rparr> ''item_1'' 5 =
           Inr (py_ref_setitem ?h2 1 ''item_1'' 5)"
    by (simp add: update_inventory_h_def dict_alloc_def empty_heap_def py_dict_contains_def)
  have "check_inventory_h ?h2 \<lparr>inventory_ref = 0\<rparr> ''item_1'' 20"
    by (simp add: check_inventory_h_def dict_alloc_def empty_heap_def py_dict_get_def)
  then show ?thesis
    using managers_separate [OF p i u, of "''item_1''" 20] by simp
qed

end
