(* ===== verification/Render.thy ===== *)
theory Render
  imports PyFloat
begin

text \<open>
  The text the script prints (src/main.py lines 34, 55, 64, 66, 82, 84, 89, 92):
  each \<open>out_line\<close> rendered as the string its f-string produces, one string
  per \<open>print\<close>, the location through a given renderer. Python's \<open>str\<close> of an \<open>int\<close> (decimal digits, a minus
  sign when negative) and of an exception (its message; for \<open>KeyError\<close> the
  \<open>repr\<close> of the key) are defined here. The \<open>repr\<close> of a float (shortest
  round-tripping decimal) is not: it is the parameter \<open>rf\<close> of
  \<open>render_location\<close>.
  Strings are sequences of Latin-1 code points (\<open>char\<close>).
\<close>

section \<open>\<open>str\<close> of an integer\<close>

definition digit_char :: "nat \<Rightarrow> char" where
  "digit_char d = char_of (48 + d)"

fun nat_str :: "nat \<Rightarrow> string" where
  "nat_str n = (if n < 10 then [digit_char n] else nat_str (n div 10) @ [digit_char (n mod 10)])"

declare nat_str.simps [simp del]

definition py_str_int :: "int \<Rightarrow> string" where
  "py_str_int i = (if i < 0 then CHR ''-'' # nat_str (nat (- i)) else nat_str (nat i))"

section \<open>\<open>repr\<close> of a string and \<open>str\<close> of an exception\<close>

definition hex_digit :: "nat \<Rightarrow> char" where
  "hex_digit d = ''0123456789abcdef'' ! d"

text \<open>
  CPython's \<open>unicode_repr\<close>, one character: the chosen quote and the backslash
  are escaped, tab, newline and carriage return by name, other non-printable
  code points (C0 controls, DEL, the C1 controls with no-break space, soft
  hyphen) as \<open>\xhh\<close>, every other character is kept.
\<close>

definition repr_char :: "char \<Rightarrow> char \<Rightarrow> string" where
  "repr_char q c =
     (if c = q \<or> c = CHR 0x5C then [CHR 0x5C, c]
      else if c = CHR 0x09 then [CHR 0x5C, CHR ''t'']
      else if c = CHR 0x0A then [CHR 0x5C, CHR ''n'']
      else if c = CHR 0x0D then [CHR 0x5C, CHR ''r'']
      else if of_char c < (32::nat) \<or> (127 \<le> (of_char c :: nat) \<and> (of_char c :: nat) \<le> 160)
              \<or> of_char c = (173::nat)
      then [CHR 0x5C, CHR ''x'', hex_digit (of_char c div 16), hex_digit (of_char c mod 16)]
      else [c])"

text \<open>The single quote, unless the string holds one and no double quote.\<close>

definition py_repr_str :: "string \<Rightarrow> string" where
  "py_repr_str s =
     (let q = (if CHR 0x27 \<in> set s \<and> CHR 0x22 \<notin> set s then CHR 0x22 else CHR 0x27)
      in q # concat (map (repr_char q) s) @ [q])"

text \<open>\<open>str(e)\<close>: the message; a \<open>KeyError\<close> shows the \<open>repr\<close> of its key.\<close>

fun py_str_error :: "py_error \<Rightarrow> string" where
  "py_str_error (ValueError m) = m"
| "py_str_error (KeyError k) = py_repr_str k"
| "py_str_error (OverflowError m) = m"

section \<open>Printed lines\<close>

text \<open>
  \<open>str\<close> of a location tuple: the \<open>repr\<close> of both coordinates, given as
  \<open>rf\<close>.
\<close>

definition render_location :: "(pyfloat \<Rightarrow> string) \<Rightarrow> location_f \<Rightarrow> string" where
  "render_location rf l = ''('' @ rf (fst l) @ '', '' @ rf (snd l) @ '')''"

fun render_line :: "('l \<Rightarrow> string) \<Rightarrow> 'l out_line \<Rightarrow> string" where
  "render_line rl Simulating_Header = ''Simulating Smart Delivery System...''"
| "render_line rl (Error_Optimizing e) = ''Error optimizing route: '' @ py_str_error e"
| "render_line rl Optimal_Route_Header = ''Optimal route found:''"
| "render_line rl (Delivery_To l) = ''Delivery to location: '' @ rl l"
| "render_line rl (Available q item) =
     py_str_int q @ '' of '' @ item @ '' is available for delivery.''"
| "render_line rl (Insufficient item) = ''Insufficient '' @ item @ '' in inventory.''"
| "render_line rl Status_Header = ''Current Inventory Status:''"
| "render_line rl (Status_Line item q) = item @ '': '' @ py_str_int q @ '' units''"

section \<open>Lemmas\<close>

text \<open>The quantities the driver prints, as text.\<close>

lemma py_str_int_quantities:
  "py_str_int 20 = ''20''" "py_str_int 100 = ''100''" "py_str_int 75 = ''75''"
  by code_simp+

end
