(* ===== verification/Driver.thy ===== *)
theory Driver
  imports FloatPlanner InventoryHeap Render
begin

text \<open>
  The driver \<open>simulate_deliveries\<close> of src/main.py (lines 54--95) and the module
  constant \<open>DELIVERY_LOCATIONS\<close> (line 8), composed from the planner over Python
  floats (FloatPlanner) and the inventory over the heap of dict objects
  (InventoryHeap), its status read through the reference
  \<open>get_inventory_status\<close> returns. \<open>simulate_deliveries_from\<close> is the body
  with the planner's locations and the start, which the code hard-codes, as
  parameters; its result is the text of each printed line, with \<open>rf\<close> the
  \<open>repr\<close> of a float, and the exception that would escape the function.

  The \<open>try\<close> around the planner (lines 62--68) can only catch an exception of
  \<open>find_optimal_route\<close> or of printing; \<open>find_optimal_route\<close> catches every
  exception itself, so its model returns normally by its type and that
  \<open>except\<close> branch has no counterpart. The same holds for the \<open>try\<close> around
  \<open>check_inventory\<close> (lines 78--87), a comparison of ints. The two
  \<open>update_inventory\<close> calls (lines 74--75) are outside any \<open>try\<close>: an exception
  there would end the function, which the \<open>Some\<close> branch records.
\<close>

section \<open>The model of the code\<close>

definition DELIVERY_LOCATIONS :: "location_f list" where
  "DELIVERY_LOCATIONS =
     [(Fin 40.7128, Fin (-74.0060)), (Fin 34.0522, Fin (-118.2437)),
      (Fin 41.8781, Fin (-87.6298)), (Fin 29.7604, Fin (-95.3698))]"

definition simulate_deliveries_from ::
  "(pyfloat \<Rightarrow> string) \<Rightarrow> location_f list \<Rightarrow> location_f \<Rightarrow> string list \<times> py_error option" where
  "simulate_deliveries_from rf delivery_locations start_location =
     (let out = render_line (render_location rf);
          planner = \<lparr>locations_f = delivery_locations\<rparr>;
          (err_lines, route) = find_optimal_route_f planner start_location;
          out_route = out Simulating_Header # map out err_lines @ out Optimal_Route_Header #
                        map (\<lambda>loc. out (Delivery_To loc)) route;
          (inventory, h0) = init_inventory_manager_h empty_heap
      in (case update_inventory_h h0 inventory ''item_1'' 100 of
            Inl e \<Rightarrow> (out_route, Some e)
          | Inr h1 \<Rightarrow>
              (case update_inventory_h h1 inventory ''item_2'' 75 of
                 Inl e \<Rightarrow> (out_route, Some e)
               | Inr h2 \<Rightarrow>
                   (let required_item = ''item_1'';
                        required_quantity = 20;
                        out_check =
                          (if check_inventory_h h2 inventory required_item required_quantity
                           then [out (Available required_quantity required_item)]
                           else [out (Insufficient required_item)]);
                        status = get_inventory_status_h inventory
                    in (out_route @ out_check @
                          out Status_Header #
                          map (\<lambda>(item, qty). out (Status_Line item qty)) (dicts h2 status),
                        None)))))"

definition simulate_deliveries :: "(pyfloat \<Rightarrow> string) \<Rightarrow> string list \<times> py_error option" where
  "simulate_deliveries rf =
     simulate_deliveries_from rf DELIVERY_LOCATIONS (Fin 37.7749, Fin (-122.4194))"

section \<open>Lemmas\<close>

text \<open>The driver with its inventory half evaluated on the heap.\<close>

lemma simulate_deliveries_from_eq:
  "simulate_deliveries_from rf locs start =
     (let (err_lines, route) = find_optimal_route_f \<lparr>locations_f = locs\<rparr> start
      in (''Simulating Smart Delivery System...'' #
          map (render_line (render_location rf)) err_lines @
          ''Optimal route found:'' #
          map (\<lambda>loc. ''Delivery to location: '' @ render_location rf loc) route @
          [''20 of item_1 is available for delivery.'', ''Current Inventory Status:'',
           ''item_1: 100 units'', ''item_2: 75 units''], None))"
  by (simp add: simulate_deliveries_from_def init_inventory_manager_h_def dict_alloc_def
      empty_heap_def update_inventory_h_view inv_view_def inventory_eval check_inventory_h_def
      get_inventory_status_h_def py_dict_get_def py_str_int_quantities split: prod.split)

section \<open>Properties of the driver\<close>

text \<open>
  \<^bold>\<open>C18.\<close> Whenever route planning fails, for any locations and start, the whole
  script prints the planner's \<open>OverflowError\<close>, then \<open>Optimal route found:\<close>
  with no delivery line after it, then the inventory lines as usual; the
  driver's own \<open>except\<close> (lines 67--68) never runs and no exception escapes.
\<close>

theorem driver_planner_failure:
  assumes "fst (find_optimal_route_f \<lparr>locations_f = locs\<rparr> start) \<noteq> []"
  shows "\<exists>m. simulate_deliveries_from rf locs start =
     ([''Simulating Smart Delivery System...'',
       ''Error optimizing route: '' @ py_str_error (OverflowError m),
       ''Optimal route found:'',
       ''20 of item_1 is available for delivery.'', ''Current Inventory Status:'',
       ''item_1: 100 units'', ''item_2: 75 units''], None)"
proof (cases "find_route_loop_f start locs [start]")
  case (Inl e)
  then obtain m where "e = OverflowError m" by (blast dest: find_route_loop_f_Inl_overflow)
  with Inl show ?thesis
    by (simp add: simulate_deliveries_from_eq find_optimal_route_f_def)
next
  case (Inr r)
  with assms show ?thesis by (simp add: find_optimal_route_f_def)
qed

text \<open>
  \<^bold>\<open>C19.\<close> With coordinates of magnitude at most \<open>2^510\<close> (or non-finite),
  the script prints the headers, one delivery line for the start and for every
  location, each exactly as often as it is listed, and then the inventory lines:
  20 of \<open>item_1\<close> are available and the stock is 100 and 75, read through the
  live status dict. No exception escapes.
\<close>

theorem driver_bounded_output:
  assumes "list_all loc_ok locs" and "loc_ok start"
  shows "\<exists>t. mset t = mset locs \<and>
     simulate_deliveries_from rf locs start =
       (''Simulating Smart Delivery System...'' # ''Optimal route found:'' #
        map (\<lambda>l. ''Delivery to location: '' @ render_location rf l) (start # t) @
        [''20 of item_1 is available for delivery.'', ''Current Inventory Status:'',
         ''item_1: 100 units'', ''item_2: 75 units''], None)"
proof -
  obtain t where "find_route_loop_f start locs [start] = Inr ([start] @ t)"
    and "mset t = mset locs"
    using find_route_loop_f_ok [OF assms(2,1)] by blast
  then show ?thesis
    by (auto simp: simulate_deliveries_from_eq find_optimal_route_f_def)
qed

section \<open>Witnesses\<close>

theorem driver_planner_failure_witness:
  "fst (find_optimal_route_f \<lparr>locations_f = [(Fin (10 ^ 200), Fin 0)]\<rparr> (Fin 0, Fin 0)) \<noteq> [] \<and>
   (\<forall>rf. simulate_deliveries_from rf [(Fin (10 ^ 200), Fin 0)] (Fin 0, Fin 0) =
     ([''Simulating Smart Delivery System...'',
       ''Error optimizing route: (34, 'Numerical result out of range')'',
       ''Optimal route found:'',
       ''20 of item_1 is available for delivery.'', ''Current Inventory Status:'',
       ''item_1: 100 units'', ''item_2: 75 units''], None))"
proof -
  have f: "find_optimal_route_f \<lparr>locations_f = [(Fin (10 ^ 200), Fin 0)]\<rparr> (Fin 0, Fin 0) =
     ([Error_Optimizing (OverflowError ''(34, 'Numerical result out of range')'')], [])"
    by (simp add: float_eval)
  then have h: "fst (find_optimal_route_f \<lparr>locations_f = [(Fin (10 ^ 200), Fin 0)]\<rparr> (Fin 0, Fin 0)) \<noteq> []"
    by simp
  have "simulate_deliveries_from rf [(Fin (10 ^ 200), Fin 0)] (Fin 0, Fin 0) =
     ([''Simulating Smart Delivery System...'',
       ''Error optimizing route: (34, 'Numerical result out of range')'',
       ''Optimal route found:'',
       ''20 of item_1 is available for delivery.'', ''Current Inventory Status:'',
       ''item_1: 100 units'', ''item_2: 75 units''], None)" for rf
  proof -
    obtain m where "simulate_deliveries_from rf [(Fin (10 ^ 200), Fin 0)] (Fin 0, Fin 0) =
       ([''Simulating Smart Delivery System...'',
         ''Error optimizing route: '' @ py_str_error (OverflowError m),
         ''Optimal route found:'',
         ''20 of item_1 is available for delivery.'', ''Current Inventory Status:'',
         ''item_1: 100 units'', ''item_2: 75 units''], None)"
      using driver_planner_failure [OF h] by blast
    moreover have "simulate_deliveries_from rf [(Fin (10 ^ 200), Fin 0)] (Fin 0, Fin 0) =
       ([''Simulating Smart Delivery System...'',
         ''Error optimizing route: (34, 'Numerical result out of range')'',
         ''Optimal route found:'',
         ''20 of item_1 is available for delivery.'', ''Current Inventory Status:'',
         ''item_1: 100 units'', ''item_2: 75 units''], None)"
      unfolding simulate_deliveries_from_eq f by simp
    ultimately show ?thesis by simp
  qed
  with h show ?thesis by blast
qed

theorem driver_bounded_output_witness:
  "list_all loc_ok DELIVERY_LOCATIONS \<and> loc_ok (Fin 37.7749, Fin (-122.4194)) \<and>
   (\<forall>rf. \<exists>t. mset t = mset DELIVERY_LOCATIONS \<and>
     simulate_deliveries rf =
       (''Simulating Smart Delivery System...'' # ''Optimal route found:'' #
        map (\<lambda>l. ''Delivery to location: '' @ render_location rf l)
          ((Fin 37.7749, Fin (-122.4194)) # t) @
        [''20 of item_1 is available for delivery.'', ''Current Inventory Status:'',
         ''item_1: 100 units'', ''item_2: 75 units''], None))"
proof -
  have a: "list_all loc_ok DELIVERY_LOCATIONS" and b: "loc_ok (Fin 37.7749, Fin (-122.4194))"
    by (simp_all add: DELIVERY_LOCATIONS_def loc_ok_def coord_ok_def coord_bound_def)
  show ?thesis
    using a b driver_bounded_output [OF a b] by (simp add: simulate_deliveries_def)
qed

end
