(* ===== verification/Spec2Isabelle.thy ===== *)
theory Spec2Isabelle
  imports PlannerLoop Driver
begin

text \<open>
  \<^bold>\<open>A verified model of the smart-delivery script (src/main.py).\<close>

  \<^bold>\<open>The program.\<close> One Python file with three parts. \<open>RoutePlanner\<close>
  (lines 10--35) holds a list of \<open>(latitude, longitude)\<close> float pairs and builds
  a route greedily: from the current position it takes \<open>min\<close> of the remaining
  locations keyed by \<open>calculate_distance\<close>
  (\<open>np.sqrt((a - c)**2 + (b - d)**2)\<close>), appends it, removes it with
  \<open>list.remove\<close>, and repeats until none remain; any exception is caught,
  printed, and turned into the empty route. \<open>InventoryManager\<close> (lines 37--52)
  is a dict from item name to quantity with \<open>update_inventory\<close> (add, or
  create), \<open>get_inventory_status\<close> (returns the dict itself) and
  \<open>check_inventory\<close> (\<open>get(item, 0) >= required\<close>). \<open>simulate_deliveries\<close>
  (lines 54--95) runs the planner on \<open>DELIVERY_LOCATIONS\<close> from San Francisco,
  prints the route, adds two items to a fresh inventory, checks one and prints
  the stock. The parts interact only through this driver.

  \<^bold>\<open>Theories.\<close>
  \<^item> \<open>Prelude\<close>: the exceptions (\<open>py_error\<close>, result type \<open>'a py_result\<close> with
    \<open>Inl\<close> the raised exception), the printed lines (\<open>'l out_line\<close>, one
    constructor per \<open>print\<close>), shared list lemmas and \<open>py_builtin_simps\<close>.
  \<^item> \<open>PyBuiltins\<close>: CPython's \<open>min(iterable, key=)\<close> as \<open>py_min_key\<close> (keys
    that never raise, linear order) and as \<open>py_min_by\<close> / \<open>py_min_idx\<close> (a
    key that may raise, a strict order given as a parameter, the selected
    position), \<open>list.remove\<close> as \<open>py_list_remove\<close>, and the insertion-ordered
    dict (\<open>py_dict_contains\<close>, \<open>py_dict_getitem\<close>, \<open>py_dict_setitem\<close>,
    \<open>py_dict_get\<close>) on association lists.
  \<^item> \<open>PyFloat\<close>: Python floats as IEEE doubles (\<open>pyfloat\<close>: finite, \<open>+inf\<close>,
    \<open>-inf\<close>, NaN) with the operations of line 16 (\<open>float_sub\<close>,
    \<open>float_pow2\<close> raising \<open>OverflowError\<close> on finite overflow as CPython's
    \<open>float.__pow__\<close> does, \<open>float_add\<close>, \<open>np_sqrt\<close>) and the \<open><\<close> of line 27
    (\<open>float_lt\<close>, false with NaN).
  \<^item> \<open>FloatPlanner\<close>: the model of \<open>RoutePlanner\<close>: \<open>route_planner_f\<close>,
    \<open>calculate_distance_f\<close>, the \<open>while\<close> loop as \<open>find_route_loop_f\<close> (a
    \<open>function\<close> terminating by the length of the remaining list) and
    \<open>find_optimal_route_f\<close> with its \<open>except\<close> branch; the specification
    \<open>greedy_tour\<close> (every step goes to a location no other remaining location is
    nearer than, by the program's own distance and \<open><\<close>).
  \<^item> \<open>PlannerLoop\<close>: the same loop statement by statement as a state machine:
    record \<open>loop_state\<close>, \<open>loop_init\<close> (lines 22--24), \<open>loop_body\<close> (lines
    27--30 in source order, raising what \<open>min\<close>'s key raises), the guarded step
    relation \<open>loop_step\<close>, the reachable states and the invariant \<open>loop_inv\<close>.
  \<^item> \<open>Inventory\<close>: record \<open>inventory_manager\<close> with the dict as a value, its
    three methods, and the specification's keyed counter \<open>increment\<close> /
    \<open>quantity_of\<close> / \<open>has_at_least\<close> on \<open>string \<rightharpoonup> int\<close> with abstraction
    \<open>inv_abs\<close>.
  \<^item> \<open>InventoryHeap\<close>: the class over an explicit heap of dict objects (record
    \<open>py_heap\<close> with \<open>dicts\<close> and the allocation limit \<open>lim\<close>, after Imperative
    HOL's references): \<open>self.inventory\<close> is an address, \<open>dict_alloc\<close> is the
    \<open>{}\<close> of line 39, \<open>py_ref_setitem\<close> a \<open>d[k] = v\<close> through any reference,
    and \<open>get_inventory_status_h\<close> returns the reference itself, as line 48 does.
  \<^item> \<open>Render\<close>: the text of every \<open>print\<close> (\<open>render_line\<close>), Python's
    \<open>str\<close> of an \<open>int\<close>, \<open>repr\<close> of a string (for a \<open>KeyError\<close>) and
    \<open>str\<close> of an exception.
  \<^item> \<open>Driver\<close>: \<open>DELIVERY_LOCATIONS\<close>, \<open>simulate_deliveries_from\<close> (the
    driver with its two constants as parameters) and \<open>simulate_deliveries\<close>,
    composed from the float planner, the heap inventory and the rendering; the
    result is the printed text and the exception that would escape.

  \<^bold>\<open>What is proved.\<close> Planner (C1--C6): every returned route is the start
  followed by a greedy tour of the locations (refinement of \<open>greedy_tour\<close>,
  for every float input); each step goes to a location no later stop is nearer
  than; the only failure is \<open>OverflowError\<close>; with coordinates of magnitude at
  most \<open>2^510\<close> (NaN and infinities allowed) nothing fails and the route is the
  start followed by a permutation; ties go to the location listed first; a
  location with a NaN coordinate listed first is always the first stop. \<open>min\<close>
  (C7, C11): the strict replacement of CPython keeps the first minimal element,
  and under a strict partial order the selected object is the first occurrence
  of its value, so \<open>list.remove\<close> by value deletes exactly it. Loop (C8--C10):
  the invariant in every reachable state; under the guard the body raises
  \<open>OverflowError\<close> or shortens the remaining list; with bounded coordinates the
  loop reaches its final state. Inventory (C12--C15): refinement of
  \<open>increment\<close> with the \<open>KeyError\<close> unreachable, check-after-update,
  monotonicity, preservation of non-negative stock. Heap (C16--C17): a write
  through the dict \<open>get_inventory_status\<close> returns sets the manager's stock;
  a manager created later never shares an earlier one's dict. Driver
  (C18--C19): whenever planning fails the script prints the error, then
  \<open>Optimal route found:\<close> with no delivery, then the inventory lines; with
  bounded coordinates it prints one delivery line per stop of a permutation
  route and the inventory lines, and nothing escapes.

  \<^bold>\<open>Bounds and termination.\<close> No fuel is used: the loop terminates by the
  measure \<open>length remaining_locations\<close>. Python ints are unbounded (\<open>int\<close>).
  Floats overflow at \<open>2^1024 - 2^970\<close>, the round-to-nearest threshold of
  doubles; the bound \<open>coord_bound = 2^510\<close> on coordinates keeps every
  difference at most \<open>2^511\<close> in magnitude and the sum of two squares at most
  \<open>2^1023\<close>, so no operation overflows under it. Above it, \<open>** 2\<close> of a
  difference past about \<open>1.34e154\<close> raises, which C3 and C18 cover.

  \<^bold>\<open>Not modelled.\<close> Rounding of finite floats to 53 bits, signed zero and
  subnormals: finite results are exact in \<open>PyFloat\<close>, so the model may order
  two near-equal distances differently from the hardware; the decimal literals
  of the source are taken as exact values, not their nearest doubles. The
  \<open>repr\<close> of a float is the parameter \<open>rf\<close> of the rendering.
  \<open>list.remove\<close> compares by identity first and then by \<open>==\<close>; the model
  compares by value, which selects the same object (C11). Strings are Latin-1
  code points, not full Unicode. Dynamic typing (a non-numeric quantity raising
  \<open>TypeError\<close>) is excluded by the model's types. The imports (\<open>numpy\<close>,
  whose \<open>np.sqrt\<close> is \<open>np_sqrt\<close>, and the unused \<open>random\<close>) and the markdown
  around the code block are not program code.
\<close>

end
